theory Spec2Isabelle
  imports Complex_Main
begin

section \<open>The Jira-Slack agent (agent.py): a shallow embedding\<close>

text \<open>
  The agent is orchestration: every step of \<^verbatim>\<open>JiraSlackAgent\<close> is a call to a third-party
  client (Slack, Jira, the language model) or a piece of string and dictionary handling
  around such a call. The embedding keeps the methods of agent.py, with their names and
  their order of statements, and makes explicit what Python leaves implicit:
  \<^item> a Python value is a \<open>pyval\<close> (what \<^verbatim>\<open>json.loads\<close> can return);
  \<^item> an exception is a value of type \<open>exn\<close>, and a computation that may raise returns
    \<open>exn + 'a\<close> (\<open>Inl\<close> the exception);
  \<^item> a method returns its outcome together with the ordered list of the external calls
    and log records it performed (type \<open>'a prog\<close>);
  \<^item> the third-party clients are a record of response functions (\<open>ext\<close>), over which every
    theorem quantifies.
  A \<open>char\<close> stands for one code point of a Python \<^verbatim>\<open>str\<close> (the code points below 256), so
  \<open>length\<close> and \<open>take\<close> count what \<^verbatim>\<open>len\<close> and slicing count.
\<close>

subsection \<open>Python values\<close>

text \<open>A Python float: a finite double is the rational it denotes; comparison is exact.\<close>

datatype pyfloat = Finite rat | PosInf | NegInf | NaN

datatype pyval =
    PNone
  | PBool bool
  | PInt int
  | PFloat pyfloat
  | PStr string
  | PList "pyval list"
  | PDict "(string \<times> pyval) list"

text \<open>
  Exceptions, all of them subclasses of \<^verbatim>\<open>Exception\<close> (\<^verbatim>\<open>KeyboardInterrupt\<close> and
  \<^verbatim>\<open>SystemExit\<close> are outside the model). \<open>ServiceError\<close> is whatever a third-party
  client raises (a Slack API error, a \<^verbatim>\<open>JIRAError\<close>, a model API error).
\<close>

datatype exn =
    ValueError string
  | KeyError string
  | IndexError
  | TypeError
  | AttributeError
  | JSONDecodeError
  | ServiceError string

text \<open>Truth value testing (\<^verbatim>\<open>if x:\<close>, \<^verbatim>\<open>x and y\<close>).\<close>

fun py_truthy :: "pyval \<Rightarrow> bool" where
  "py_truthy PNone = False"
| "py_truthy (PBool b) = b"
| "py_truthy (PInt i) = (i \<noteq> 0)"
| "py_truthy (PFloat f) = (f \<noteq> Finite 0)"
| "py_truthy (PStr s) = (s \<noteq> [])"
| "py_truthy (PList xs) = (xs \<noteq> [])"
| "py_truthy (PDict kvs) = (kvs \<noteq> [])"

text \<open>\<^verbatim>\<open>a >= b\<close> on floats: false when either side is NaN.\<close>

fun float_ge :: "pyfloat \<Rightarrow> pyfloat \<Rightarrow> bool" where
  "float_ge NaN _ = False"
| "float_ge _ NaN = False"
| "float_ge PosInf _ = True"
| "float_ge _ NegInf = True"
| "float_ge NegInf _ = False"
| "float_ge (Finite a) PosInf = False"
| "float_ge (Finite a) (Finite b) = (b \<le> a)"

text \<open>The numeric value of a Python number (\<^verbatim>\<open>bool\<close> is a subclass of \<^verbatim>\<open>int\<close>).\<close>

fun num_value :: "pyval \<Rightarrow> pyfloat option" where
  "num_value (PBool b) = Some (Finite (if b then 1 else 0))"
| "num_value (PInt i) = Some (Finite (of_int i))"
| "num_value (PFloat f) = Some f"
| "num_value _ = None"

text \<open>
  \<^verbatim>\<open>v >= threshold\<close> for a numeric threshold: \<^verbatim>\<open>None\<close>, a string, a list or a dict on the
  left raises \<^verbatim>\<open>TypeError\<close>.
\<close>

definition py_ge :: "pyval \<Rightarrow> pyfloat \<Rightarrow> exn + bool" where
  "py_ge v t = (case num_value v of None \<Rightarrow> Inl TypeError | Some c \<Rightarrow> Inr (float_ge c t))"

text \<open>
  \<^verbatim>\<open>d.get(k, default)\<close> and \<^verbatim>\<open>d[k]\<close> on a dict. A dict is the list of its items, read
  with \<open>map_of\<close>: the first item for a key is the one that counts.
\<close>

definition dict_get :: "(string \<times> pyval) list \<Rightarrow> string \<Rightarrow> pyval \<Rightarrow> pyval" where
  "dict_get d k dflt = (case map_of d k of None \<Rightarrow> dflt | Some v \<Rightarrow> v)"

definition dict_index :: "(string \<times> pyval) list \<Rightarrow> string \<Rightarrow> exn + pyval" where
  "dict_index d k = (case map_of d k of None \<Rightarrow> Inl (KeyError k) | Some v \<Rightarrow> Inr v)"

subsection \<open>Python strings\<close>

text \<open>\<^verbatim>\<open>str.isspace\<close> on one code point below 256.\<close>

definition isspace :: "char \<Rightarrow> bool" where
  "isspace c = (of_char c \<in> {9, 10, 11, 12, 13, 28, 29, 30, 31, 32, 133, 160 :: nat})"

definition py_strip :: "string \<Rightarrow> string" where
  "py_strip s = rev (dropWhile isspace (rev (dropWhile isspace s)))"

definition startswith :: "string \<Rightarrow> string \<Rightarrow> bool" where
  "startswith s p = (take (length p) s = p)"

text \<open>
  \<^verbatim>\<open>s.split(sep)\<close>: the pieces between the occurrences of \<open>sep\<close>, found from the left
  and not overlapping; an empty separator raises \<^verbatim>\<open>ValueError\<close>.
\<close>

function split_from :: "string \<Rightarrow> string \<Rightarrow> string \<Rightarrow> string list" where
  "split_from sep acc [] = [rev acc]"
| "split_from sep acc (c # cs) =
     (if sep \<noteq> [] \<and> take (length sep) (c # cs) = sep
      then rev acc # split_from sep [] (drop (length sep) (c # cs))
      else split_from sep (c # acc) cs)"
  by pat_completeness auto
termination
  by (relation "measure (\<lambda>(sep, acc, s). length s)") auto

definition py_split :: "string \<Rightarrow> string \<Rightarrow> exn + string list" where
  "py_split s sep = (if sep = [] then Inl (ValueError ''empty separator'') else Inr (split_from sep [] s))"

text \<open>\<^verbatim>\<open>xs[i]\<close> for \<open>i \<ge> 0\<close>: \<^verbatim>\<open>IndexError\<close> out of range.\<close>

definition list_index :: "'a list \<Rightarrow> nat \<Rightarrow> exn + 'a" where
  "list_index xs i = (if i < length xs then Inr (xs ! i) else Inl IndexError)"

text \<open>\<^verbatim>\<open>sep.join(xs)\<close>.\<close>

fun py_join :: "string \<Rightarrow> string list \<Rightarrow> string" where
  "py_join sep [] = []"
| "py_join sep [x] = x"
| "py_join sep (x # y # ys) = x @ sep @ py_join sep (y # ys)"

text \<open>The three backticks of a Markdown code fence.\<close>

definition fence :: string where
  "fence = [CHR 0x60, CHR 0x60, CHR 0x60]"

text \<open>
  Lines 221 to 228 of \<^verbatim>\<open>_analyze_message\<close>, applied to the text of the first content
  block:
  \<^verbatim>\<open>
  response_text = response.content[0].text.strip()
  if response_text.startswith(FENCE):
      response_text = response_text.split(FENCE)[1]
      if response_text.startswith('json'):
          response_text = response_text[4:]
      response_text = response_text.strip()
  \<close>
  where FENCE is the string of three backticks.
\<close>

definition clean_response :: "string \<Rightarrow> exn + string" where
  "clean_response text0 =
     (let response_text = py_strip text0 in
      if startswith response_text fence then
        (case py_split response_text fence of
           Inl e \<Rightarrow> Inl e
         | Inr parts \<Rightarrow>
             (case list_index parts 1 of
                Inl e \<Rightarrow> Inl e
              | Inr piece \<Rightarrow>
                  Inr (py_strip (if startswith piece ''json'' then drop 4 piece else piece))))
      else Inr response_text)"

subsection \<open>Outcomes with a record of effects\<close>

text \<open>The configuration, as loaded from config.yaml (the keys the code reads).\<close>

record config =
  jira_url :: string
  jira_project_key :: string
  jira_default_issue_type :: string
  jira_default_priority :: string
  jira_initial_status :: "string option"
  slack_notification_channel :: string
  ai_detection_mode :: string
  ai_confidence_threshold :: pyfloat
  ai_model :: string

text \<open>
  The prompt sent to the model is a fixed template with holes; a prompt is kept as the
  values that fill the holes (message, detection mode, the instruction chosen by the mode,
  threshold).
\<close>

record prompt =
  prompt_message :: string
  prompt_mode :: string
  prompt_instruction :: string
  prompt_threshold :: pyfloat

text \<open>The \<^verbatim>\<open>fields\<close> dictionary of \<^verbatim>\<open>jira_client.create_issue\<close>.\<close>

record issue_fields =
  f_project :: string
  f_summary :: pyval
  f_description :: string
  f_issuetype :: pyval
  f_priority :: "pyval option"

record issue =
  issue_key :: string
  issue_status :: string

record transition =
  tr_id :: string
  tr_to :: string

text \<open>The keyword arguments of \<^verbatim>\<open>client.chat_postMessage\<close>.\<close>

record post =
  post_channel :: string
  post_text :: string
  post_thread_ts :: "string option"
  post_unfurl_links :: "bool option"

text \<open>
  The user object of \<^verbatim>\<open>client.users_info\<close>: \<open>real_name\<close> is \<open>None\<close> when the key is
  absent, \<open>profile_email\<close> is \<open>None\<close> without a profile and \<open>Some None\<close> for a profile
  without an email.
\<close>

record slack_user =
  real_name :: "string option"
  profile_email :: "string option option"

text \<open>The inbound Slack event: the keys \<^verbatim>\<open>_process_message\<close> reads with \<^verbatim>\<open>event.get\<close>.\<close>

record slack_event =
  ev_text :: "string option"
  ev_user :: "string option"
  ev_ts :: "string option"

text \<open>One constructor for each logging statement of agent.py, with the values it prints.\<close>

datatype log_record =
    LogSlackInitialized
  | LogJiraInitialized string
  | LogAnthropicInitialized
  | LogAgentInitialized
  | LogStarting
  | LogFatal exn
  | LogProcessing string string
  | LogTicketWanted pyval
  | LogTicketDone string
  | LogNoTicket string
  | LogProcessingError exn
  | LogAnalysis pyval pyval pyval
  | LogAnalysisError exn
  | LogIssueCreated string pyval
  | LogAlreadyInStatus string string
  | LogTransitioned string string string
  | LogCannotTransition string string string string
  | LogStatusError string exn
  | LogNotificationSent string
  | LogNotificationError exn

datatype log_level = Debug | Info | Warning | Error

fun level_of :: "log_record \<Rightarrow> log_level" where
  "level_of (LogNoTicket _) = Debug"
| "level_of (LogAnalysis _ _ _) = Debug"
| "level_of (LogAlreadyInStatus _ _) = Debug"
| "level_of (LogCannotTransition _ _ _ _) = Warning"
| "level_of (LogFatal _) = Error"
| "level_of (LogProcessingError _) = Error"
| "level_of (LogAnalysisError _) = Error"
| "level_of (LogStatusError _ _) = Error"
| "level_of (LogNotificationError _) = Error"
| "level_of _ = Info"

text \<open>What a run does to the outside world, in order: a call to a client, or a log record.\<close>

datatype event =
    Log log_record
  | NewSlackApp string string
  | NewJira string string string
  | NewAnthropic string
  | SocketModeStart string
  | MessagesCreate string nat prompt
  | UsersInfo "string option"
  | ClockRead
  | CreateIssue issue_fields
  | GetIssue string
  | GetTransitions issue
  | TransitionIssue issue string
  | PostMessage post

type_synonym 'a prog = "(exn + 'a) \<times> event list"

definition succeed :: "'a \<Rightarrow> 'a prog" where
  "succeed x = (Inr x, [])"

definition raise :: "exn \<Rightarrow> 'a prog" where
  "raise e = (Inl e, [])"

text \<open>A pure computation that may raise.\<close>

definition lift :: "exn + 'a \<Rightarrow> 'a prog" where
  "lift r = (r, [])"

definition emit :: "event \<Rightarrow> unit prog" where
  "emit ev = (Inr (), [ev])"

text \<open>A call to a client: the call is recorded, whatever its outcome.\<close>

definition call :: "event \<Rightarrow> exn + 'a \<Rightarrow> 'a prog" where
  "call ev r = (r, [ev])"

text \<open>Sequencing: an exception in the first part skips the second.\<close>

definition and_then :: "'a prog \<Rightarrow> ('a \<Rightarrow> 'b prog) \<Rightarrow> 'b prog" where
  "and_then m f =
     (case m of
        (Inl e, evs) \<Rightarrow> (Inl e, evs)
      | (Inr a, evs) \<Rightarrow> (case f a of (r, evs') \<Rightarrow> (r, evs @ evs')))"

text \<open>\<^verbatim>\<open>try: m except Exception as e: h(e)\<close>.\<close>

definition try_except :: "'a prog \<Rightarrow> (exn \<Rightarrow> 'a prog) \<Rightarrow> 'a prog" where
  "try_except m h =
     (case m of
        (Inl e, evs) \<Rightarrow> (case h e of (r, evs') \<Rightarrow> (r, evs @ evs'))
      | (Inr a, evs) \<Rightarrow> (Inr a, evs))"

subsection \<open>The third-party clients\<close>

text \<open>
  What the clients answer. While one message is processed each operation is called at
  most once with the same arguments (\<^verbatim>\<open>chat_postMessage\<close> twice, with different texts), so
  an answer that is a function of the arguments covers every behaviour of the services.
  \<open>str_other\<close> is Python's \<^verbatim>\<open>str()\<close> on numbers, lists and dicts, \<open>now_text\<close> is
  \<^verbatim>\<open>datetime.now().strftime('%Y-%m-%d %H:%M:%S')\<close>.
\<close>

record ext =
  messages_create :: "string \<Rightarrow> nat \<Rightarrow> prompt \<Rightarrow> exn + string list"
  json_loads :: "string \<Rightarrow> exn + pyval"
  str_other :: "pyval \<Rightarrow> string"
  users_info :: "string option \<Rightarrow> exn + slack_user"
  now_text :: string
  create_issue :: "issue_fields \<Rightarrow> exn + issue"
  get_issue :: "string \<Rightarrow> exn + issue"
  get_transitions :: "issue \<Rightarrow> exn + transition list"
  transition_issue :: "issue \<Rightarrow> string \<Rightarrow> exn + unit"
  chat_postMessage :: "post \<Rightarrow> exn + unit"

subsection \<open>The classifier: \<^verbatim>\<open>_analyze_message\<close>\<close>

definition build_prompt :: "config \<Rightarrow> string \<Rightarrow> prompt" where
  "build_prompt cfg message_text =
     \<lparr>prompt_message = message_text,
      prompt_mode = ai_detection_mode cfg,
      prompt_instruction =
        (if ai_detection_mode cfg = ''liberal''
         then ''generous and create tickets for anything that might need tracking''
         else ''strict and only create tickets for clear bug reports or task requests''),
      prompt_threshold = ai_confidence_threshold cfg\<rparr>"

text \<open>\<^verbatim>\<open>result.get\<close> needs a dict: on any other value the attribute lookup fails.\<close>

definition as_dict :: "pyval \<Rightarrow> exn + (string \<times> pyval) list" where
  "as_dict v = (case v of PDict d \<Rightarrow> Inr d | _ \<Rightarrow> Inl AttributeError)"

text \<open>
  \<^verbatim>\<open>result.get('should_create_ticket', False) and result.get('confidence', 0) >= threshold\<close>:
  the value is the first operand when that is falsy (the comparison is then not
  evaluated), and the comparison's otherwise.
\<close>

definition gate :: "(string \<times> pyval) list \<Rightarrow> pyfloat \<Rightarrow> exn + pyval" where
  "gate d threshold =
     (let flag = dict_get d ''should_create_ticket'' (PBool False) in
      if py_truthy flag then
        (case py_ge (dict_get d ''confidence'' (PInt 0)) threshold of
           Inl e \<Rightarrow> Inl e
         | Inr b \<Rightarrow> Inr (PBool b))
      else Inr flag)"

definition ticket_info_of :: "config \<Rightarrow> (string \<times> pyval) list \<Rightarrow> (string \<times> pyval) list" where
  "ticket_info_of cfg d =
     [(''summary'', dict_get d ''summary'' PNone),
      (''description'', dict_get d ''description'' PNone),
      (''issue_type'', dict_get d ''issue_type'' (PStr (jira_default_issue_type cfg))),
      (''priority'', dict_get d ''priority'' (PStr (jira_default_priority cfg)))]"

definition analyze_message ::
  "ext \<Rightarrow> config \<Rightarrow> string \<Rightarrow> (bool \<times> (string \<times> pyval) list option) prog" where
  "analyze_message x cfg message_text =
     (let threshold = ai_confidence_threshold cfg;
          prompt = build_prompt cfg message_text
      in
      try_except
        (and_then (call (MessagesCreate (ai_model cfg) 1024 prompt)
                        (messages_create x (ai_model cfg) 1024 prompt)) (\<lambda>content.
         and_then (lift (list_index content 0)) (\<lambda>text0.
         and_then (lift (clean_response text0)) (\<lambda>response_text.
         and_then (lift (json_loads x response_text)) (\<lambda>result.
         and_then (lift (as_dict result)) (\<lambda>d.
         and_then (lift (gate d threshold)) (\<lambda>should_create.
         and_then (emit (Log (LogAnalysis should_create (dict_get d ''confidence'' PNone)
                                          (dict_get d ''reasoning'' PNone)))) (\<lambda>_.
         if py_truthy should_create
         then succeed (True, Some (ticket_info_of cfg d))
         else succeed (False, None)))))))))
        (\<lambda>e. and_then (emit (Log (LogAnalysisError e))) (\<lambda>_. succeed (False, None))))"

subsection \<open>The tracker: \<^verbatim>\<open>_create_jira_ticket\<close> and \<^verbatim>\<open>_set_issue_status\<close>\<close>

abbreviation nl :: string where
  "nl \<equiv> [CHR 0x0A]"

text \<open>An f-string hole filled with a value: \<^verbatim>\<open>str\<close> of a string is the string.\<close>

definition py_str :: "(pyval \<Rightarrow> string) \<Rightarrow> pyval \<Rightarrow> string" where
  "py_str other v =
     (case v of
        PStr s \<Rightarrow> s
      | PNone \<Rightarrow> ''None''
      | PBool b \<Rightarrow> (if b then ''True'' else ''False'')
      | _ \<Rightarrow> other v)"

definition render_description ::
  "string \<Rightarrow> string \<Rightarrow> string \<Rightarrow> string \<Rightarrow> string \<Rightarrow> string \<Rightarrow> string" where
  "render_description reporter_name reporter_email slack_channel slack_message ai_description now =
     ''*Reported by:* '' @ reporter_name @ '' ('' @ reporter_email @ '')'' @ nl @
     ''*Slack Channel:* #'' @ slack_channel @ nl @
     ''*Original Message:*'' @ nl @
     ''{quote}'' @ nl @
     slack_message @ nl @
     ''{quote}'' @ nl @
     nl @
     ''---'' @ nl @
     nl @
     ''*AI-Generated Description:*'' @ nl @
     ai_description @ nl @
     nl @
     ''---'' @ nl @
     ''_This ticket was automatically created by the Jira-Slack AI Agent on '' @ now @ ''_'' @ nl"

text \<open>
  Lines 264 to 293: the description and the \<^verbatim>\<open>issue_dict\<close>. The holes of the f-string
  are evaluated from left to right, so \<^verbatim>\<open>ticket_info['description']\<close> is read before the
  clock. The assignment of the priority is the only statement under \<^verbatim>\<open>try: ... except: pass\<close>.
\<close>

definition build_issue_dict ::
  "ext \<Rightarrow> config \<Rightarrow> (string \<times> pyval) list \<Rightarrow> string \<Rightarrow> string \<Rightarrow> string \<Rightarrow> string \<Rightarrow> issue_fields prog" where
  "build_issue_dict x cfg ticket_info reporter_name reporter_email slack_channel slack_message =
     and_then (lift (dict_index ticket_info ''description'')) (\<lambda>d.
     and_then (call ClockRead (Inr (now_text x))) (\<lambda>now.
     and_then (lift (dict_index ticket_info ''summary'')) (\<lambda>s.
     and_then (lift (dict_index ticket_info ''issue_type'')) (\<lambda>t.
     and_then (try_except
                 (and_then (lift (dict_index ticket_info ''priority'')) (\<lambda>p. succeed (Some p)))
                 (\<lambda>e. succeed None)) (\<lambda>p.
     succeed
       \<lparr>f_project = jira_project_key cfg,
        f_summary = s,
        f_description =
          render_description reporter_name reporter_email slack_channel slack_message
            (py_str (str_other x) d) now,
        f_issuetype = t,
        f_priority = p\<rparr>)))))"

text \<open>
  \<^verbatim>\<open>_set_issue_status\<close>. The whole body is under one \<^verbatim>\<open>try\<close>; the handler prints
  \<^verbatim>\<open>issue.key\<close>, which is the key of the re-fetched issue once the re-fetch has succeeded.
  The \<^verbatim>\<open>for\<close> loop with \<^verbatim>\<open>break\<close> finds the first transition that leads to the desired
  status.
\<close>

definition set_issue_status :: "ext \<Rightarrow> issue \<Rightarrow> string \<Rightarrow> unit prog" where
  "set_issue_status x issue0 desired_status =
     (case call (GetIssue (issue_key issue0)) (get_issue x (issue_key issue0)) of
        (Inl e, evs) \<Rightarrow> (Inr (), evs @ [Log (LogStatusError (issue_key issue0) e)])
      | (Inr issue, evs) \<Rightarrow>
          and_then (Inr (), evs) (\<lambda>_.
          try_except
            (let current_status = issue_status issue in
             if current_status = desired_status
             then emit (Log (LogAlreadyInStatus (issue_key issue) desired_status))
             else
               and_then (call (GetTransitions issue) (get_transitions x issue)) (\<lambda>transitions.
               case find (\<lambda>t. tr_to t = desired_status) transitions of
                 Some target_transition \<Rightarrow>
                   and_then (call (TransitionIssue issue (tr_id target_transition))
                                  (transition_issue x issue (tr_id target_transition))) (\<lambda>_.
                   emit (Log (LogTransitioned (issue_key issue) current_status desired_status)))
               | None \<Rightarrow>
                   emit (Log (LogCannotTransition (issue_key issue) desired_status current_status
                                (py_join '', '' (map tr_to transitions))))))
            (\<lambda>e. emit (Log (LogStatusError (issue_key issue) e)))))"

definition create_jira_ticket ::
  "ext \<Rightarrow> config \<Rightarrow> (string \<times> pyval) list \<Rightarrow> string \<Rightarrow> string \<Rightarrow> string \<Rightarrow> string \<Rightarrow> issue prog" where
  "create_jira_ticket x cfg ticket_info reporter_name reporter_email slack_channel slack_message =
     and_then (build_issue_dict x cfg ticket_info reporter_name reporter_email
                 slack_channel slack_message) (\<lambda>issue_dict.
     and_then (call (CreateIssue issue_dict) (create_issue x issue_dict)) (\<lambda>issue.
     and_then (lift (dict_index ticket_info ''summary'')) (\<lambda>s.
     and_then (emit (Log (LogIssueCreated (issue_key issue) s))) (\<lambda>_.
     and_then (case jira_initial_status cfg of
                 None \<Rightarrow> succeed ()
               | Some desired_status \<Rightarrow>
                   if desired_status \<noteq> [] then set_issue_status x issue desired_status
                   else succeed ()) (\<lambda>_.
     succeed issue)))))"

subsection \<open>The notifier: \<^verbatim>\<open>_send_notification\<close>\<close>

text \<open>\<^verbatim>\<open>original_message[:200]\<close> followed by three dots when the message is longer.\<close>

definition excerpt :: "string \<Rightarrow> string" where
  "excerpt original_message =
     take 200 original_message @ (if length original_message > 200 then ''...'' else [])"

text \<open>An f-string hole filled with a value that is a string or \<^verbatim>\<open>None\<close>.\<close>

definition str_opt :: "string option \<Rightarrow> string" where
  "str_opt v = (case v of None \<Rightarrow> ''None'' | Some s \<Rightarrow> s)"

definition notification_text :: "string \<Rightarrow> string \<Rightarrow> string \<Rightarrow> string option \<Rightarrow> string \<Rightarrow> string" where
  "notification_text issue_url issue_key' channel_name user_id original_message =
     '':white_check_mark: *Jira Ticket Created*'' @ nl @ nl @
     ''*Ticket:* <'' @ issue_url @ ''|'' @ issue_key' @ ''>'' @ nl @
     ''*From:* <#'' @ channel_name @ ''> by <@'' @ str_opt user_id @ ''>'' @ nl @
     ''*Original Message:*'' @ nl @
     fence @ excerpt original_message @ fence"

definition broadcast_post :: "config \<Rightarrow> string \<Rightarrow> post" where
  "broadcast_post cfg message =
     \<lparr>post_channel = slack_notification_channel cfg, post_text = message,
      post_thread_ts = None, post_unfurl_links = Some False\<rparr>"

definition thread_post :: "string \<Rightarrow> string option \<Rightarrow> string \<Rightarrow> string \<Rightarrow> post" where
  "thread_post channel_name thread_ts issue_url issue_key' =
     \<lparr>post_channel = channel_name,
      post_text = '':ticket: Created Jira ticket: <'' @ issue_url @ ''|'' @ issue_key' @ ''>'',
      post_thread_ts = thread_ts, post_unfurl_links = None\<rparr>"

definition send_notification ::
  "ext \<Rightarrow> config \<Rightarrow> string \<Rightarrow> string \<Rightarrow> string \<Rightarrow> string \<Rightarrow> string option \<Rightarrow> string option \<Rightarrow> unit prog" where
  "send_notification x cfg issue_key' issue_url original_message channel_name user_id thread_ts =
     (let message = notification_text issue_url issue_key' channel_name user_id original_message in
      try_except
        (and_then (call (PostMessage (broadcast_post cfg message))
                        (chat_postMessage x (broadcast_post cfg message))) (\<lambda>_.
         and_then (call (PostMessage (thread_post channel_name thread_ts issue_url issue_key'))
                        (chat_postMessage x (thread_post channel_name thread_ts issue_url issue_key'))) (\<lambda>_.
         emit (Log (LogNotificationSent issue_key')))))
        (\<lambda>e. emit (Log (LogNotificationError e))))"

subsection \<open>The router's pipeline: \<^verbatim>\<open>_process_message\<close>\<close>

text \<open>\<^verbatim>\<open>ticket_info.get\<close> on the optional dict returned by the classifier.\<close>

definition opt_dict :: "(string \<times> pyval) list option \<Rightarrow> exn + (string \<times> pyval) list" where
  "opt_dict v = (case v of None \<Rightarrow> Inl AttributeError | Some d \<Rightarrow> Inr d)"

definition user_real_name :: "slack_user \<Rightarrow> exn + string" where
  "user_real_name u = (case real_name u of None \<Rightarrow> Inl (KeyError ''real_name'') | Some n \<Rightarrow> Inr n)"

definition user_email :: "slack_user \<Rightarrow> string" where
  "user_email u =
     (case profile_email u of
        None \<Rightarrow> ''unknown''
      | Some None \<Rightarrow> ''unknown''
      | Some (Some e) \<Rightarrow> e)"

text \<open>\<^verbatim>\<open>event.get('text', '')\<close>.\<close>

definition event_text :: "slack_event \<Rightarrow> string" where
  "event_text event = (case ev_text event of None \<Rightarrow> [] | Some t \<Rightarrow> t)"

definition process_message :: "ext \<Rightarrow> config \<Rightarrow> slack_event \<Rightarrow> string \<Rightarrow> unit prog" where
  "process_message x cfg event channel_name =
     (let message_text = event_text event;
          user_id = ev_user event;
          timestamp = ev_ts event
      in
      and_then (emit (Log (LogProcessing channel_name (take 100 message_text)))) (\<lambda>_.
      try_except
        (and_then (analyze_message x cfg message_text) (\<lambda>(should_create, ticket_info).
         if should_create then
           and_then (lift (opt_dict ticket_info)) (\<lambda>info.
           and_then (emit (Log (LogTicketWanted (dict_get info ''summary'' PNone)))) (\<lambda>_.
           and_then (call (UsersInfo user_id) (users_info x user_id)) (\<lambda>user.
           and_then (lift (user_real_name user)) (\<lambda>user_name.
           and_then (create_jira_ticket x cfg info user_name (user_email user)
                       channel_name message_text) (\<lambda>issue.
           and_then (send_notification x cfg (issue_key issue)
                       (jira_url cfg @ ''/browse/'' @ issue_key issue)
                       message_text channel_name user_id timestamp) (\<lambda>_.
           emit (Log (LogTicketDone (issue_key issue)))))))))
         else emit (Log (LogNoTicket (take 50 message_text)))))
        (\<lambda>e. emit (Log (LogProcessingError e)))))"

subsection \<open>Startup: \<^verbatim>\<open>__init__\<close>, \<^verbatim>\<open>start\<close> and \<^verbatim>\<open>main\<close>\<close>

text \<open>
  The process environment (after \<^verbatim>\<open>load_dotenv\<close>) and the constructors of the three
  clients and of the socket-mode handler. Constructing a client is what opens its
  session: the Slack app verifies its token, the Jira client connects to the server.
  The configuration file is taken as loaded, with every key the code reads.
\<close>

record boot =
  getenv :: "string \<Rightarrow> string option"
  new_slack_app :: "string \<Rightarrow> string \<Rightarrow> exn + unit"
  new_jira :: "string \<Rightarrow> string \<Rightarrow> string \<Rightarrow> exn + unit"
  new_anthropic :: "string \<Rightarrow> exn + unit"
  socket_mode_start :: "string \<Rightarrow> exn + unit"

text \<open>\<^verbatim>\<open>not v\<close> for the result of \<^verbatim>\<open>os.getenv\<close>: unset, or set to the empty string.\<close>

definition unset :: "string option \<Rightarrow> bool" where
  "unset v = (case v of None \<Rightarrow> True | Some s \<Rightarrow> s = [])"

definition slack_secrets_message :: string where
  "slack_secrets_message = ''SLACK_BOT_TOKEN and SLACK_SIGNING_SECRET must be set in .env file''"

definition jira_secrets_message :: string where
  "jira_secrets_message = ''JIRA_EMAIL and JIRA_API_TOKEN must be set in .env file''"

definition anthropic_secret_message :: string where
  "anthropic_secret_message = ''ANTHROPIC_API_KEY must be set in .env file''"

definition app_token_message :: string where
  "app_token_message =
     ''SLACK_APP_TOKEN must be set in .env file. This is required for Socket Mode. '' @
     ''Generate it in your Slack app settings under '' @ [CHR 0x27] @ ''App-Level Tokens'' @
     [CHR 0x27] @ ''.''"

definition init_slack :: "boot \<Rightarrow> unit prog" where
  "init_slack b =
     (let token = getenv b ''SLACK_BOT_TOKEN'';
          signing_secret = getenv b ''SLACK_SIGNING_SECRET''
      in
      if unset token \<or> unset signing_secret then raise (ValueError slack_secrets_message)
      else
        and_then (call (NewSlackApp (str_opt token) (str_opt signing_secret))
                       (new_slack_app b (str_opt token) (str_opt signing_secret))) (\<lambda>_.
        emit (Log LogSlackInitialized)))"

definition init_jira :: "boot \<Rightarrow> config \<Rightarrow> unit prog" where
  "init_jira b cfg =
     (let jira_email = getenv b ''JIRA_EMAIL'';
          jira_token = getenv b ''JIRA_API_TOKEN''
      in
      if unset jira_email \<or> unset jira_token then raise (ValueError jira_secrets_message)
      else
        and_then (call (NewJira (jira_url cfg) (str_opt jira_email) (str_opt jira_token))
                       (new_jira b (jira_url cfg) (str_opt jira_email) (str_opt jira_token))) (\<lambda>_.
        emit (Log (LogJiraInitialized (jira_url cfg)))))"

definition init_anthropic :: "boot \<Rightarrow> unit prog" where
  "init_anthropic b =
     (let api_key = getenv b ''ANTHROPIC_API_KEY'' in
      if unset api_key then raise (ValueError anthropic_secret_message)
      else
        and_then (call (NewAnthropic (str_opt api_key)) (new_anthropic b (str_opt api_key))) (\<lambda>_.
        emit (Log LogAnthropicInitialized)))"

text \<open>\<^verbatim>\<open>__init__\<close> from the clients on (registering the handler calls no service).\<close>

definition agent_init :: "boot \<Rightarrow> config \<Rightarrow> unit prog" where
  "agent_init b cfg =
     and_then (init_slack b) (\<lambda>_.
     and_then (init_jira b cfg) (\<lambda>_.
     and_then (init_anthropic b) (\<lambda>_.
     emit (Log LogAgentInitialized))))"

definition start :: "boot \<Rightarrow> unit prog" where
  "start b =
     (let app_token = getenv b ''SLACK_APP_TOKEN'' in
      if unset app_token then raise (ValueError app_token_message)
      else
        and_then (emit (Log LogStarting)) (\<lambda>_.
        call (SocketModeStart (str_opt app_token)) (socket_mode_start b (str_opt app_token))))"

definition main :: "boot \<Rightarrow> config \<Rightarrow> unit prog" where
  "main b cfg =
     try_except
       (and_then (agent_init b cfg) (\<lambda>_. start b))
       (\<lambda>e. and_then (emit (Log (LogFatal e))) (\<lambda>_. raise e))"

text \<open>The events that open a session with a service.\<close>

fun opens_session :: "event \<Rightarrow> bool" where
  "opens_session (NewSlackApp _ _) = True"
| "opens_session (NewJira _ _ _) = True"
| "opens_session (NewAnthropic _) = True"
| "opens_session (SocketModeStart _) = True"
| "opens_session _ = False"

text \<open>A client is ready when its secrets are set and its constructor does not raise.\<close>

definition slack_ready :: "boot \<Rightarrow> bool" where
  "slack_ready b =
     (\<not> unset (getenv b ''SLACK_BOT_TOKEN'') \<and> \<not> unset (getenv b ''SLACK_SIGNING_SECRET'') \<and>
      new_slack_app b (str_opt (getenv b ''SLACK_BOT_TOKEN''))
        (str_opt (getenv b ''SLACK_SIGNING_SECRET'')) = Inr ())"

definition jira_ready :: "boot \<Rightarrow> config \<Rightarrow> bool" where
  "jira_ready b cfg =
     (\<not> unset (getenv b ''JIRA_EMAIL'') \<and> \<not> unset (getenv b ''JIRA_API_TOKEN'') \<and>
      new_jira b (jira_url cfg) (str_opt (getenv b ''JIRA_EMAIL''))
        (str_opt (getenv b ''JIRA_API_TOKEN'')) = Inr ())"

definition anthropic_ready :: "boot \<Rightarrow> bool" where
  "anthropic_ready b =
     (\<not> unset (getenv b ''ANTHROPIC_API_KEY'') \<and>
      new_anthropic b (str_opt (getenv b ''ANTHROPIC_API_KEY'')) = Inr ())"

subsection \<open>Reading a record of effects\<close>

fun creates_issue :: "event \<Rightarrow> bool" where
  "creates_issue (CreateIssue _) = True"
| "creates_issue _ = False"

fun posts_message :: "event \<Rightarrow> bool" where
  "posts_message (PostMessage _) = True"
| "posts_message _ = False"

text \<open>A code fence somewhere in a text.\<close>

fun has_fence :: "string \<Rightarrow> bool" where
  "has_fence [] = False"
| "has_fence (c # cs) = (startswith (c # cs) fence \<or> has_fence cs)"

subsection \<open>The verdict and the draft\<close>

text \<open>
  The verdict of a message is the dict \<open>d\<close> decoded from the model's answer. It is
  positive when the answer arrived, decoded to a dict, \<^verbatim>\<open>should_create_ticket\<close> is true
  (as Python tests truth: for a JSON boolean, the boolean; absent counts as \<^verbatim>\<open>False\<close>) and
  \<^verbatim>\<open>confidence\<close> (absent counts as 0) is a number that is at least the threshold.
\<close>

definition positive :: "ext \<Rightarrow> config \<Rightarrow> string \<Rightarrow> (string \<times> pyval) list \<Rightarrow> bool" where
  "positive x cfg m d =
     (\<exists>t ts s. messages_create x (ai_model cfg) 1024 (build_prompt cfg m) = Inr (t # ts) \<and>
        clean_response t = Inr s \<and> json_loads x s = Inr (PDict d) \<and>
        py_truthy (dict_get d ''should_create_ticket'' (PBool False)) \<and>
        py_ge (dict_get d ''confidence'' (PInt 0)) (ai_confidence_threshold cfg) = Inr True)"

text \<open>The fields of the create call for the verdict \<open>d\<close>.\<close>

definition issue_dict_of ::
  "ext \<Rightarrow> config \<Rightarrow> (string \<times> pyval) list \<Rightarrow> string \<Rightarrow> string \<Rightarrow> string \<Rightarrow> string \<Rightarrow> issue_fields" where
  "issue_dict_of x cfg d reporter_name reporter_email slack_channel slack_message =
     \<lparr>f_project = jira_project_key cfg,
      f_summary = dict_get d ''summary'' PNone,
      f_description =
        render_description reporter_name reporter_email slack_channel slack_message
          (py_str (str_other x) (dict_get d ''description'' PNone)) (now_text x),
      f_issuetype = dict_get d ''issue_type'' (PStr (jira_default_issue_type cfg)),
      f_priority = Some (dict_get d ''priority'' (PStr (jira_default_priority cfg)))\<rparr>"

subsection \<open>A concrete deployment\<close>

text \<open>
  The scenario of the specification: a strict classifier with threshold 0.7, and the
  message about the export button. The values below are the inputs of the examples that
  follow the theorems.
\<close>

definition demo_cfg :: config where
  "demo_cfg =
     \<lparr>jira_url = ''https://example.atlassian.net'',
      jira_project_key = ''PROJ'',
      jira_default_issue_type = ''Task'',
      jira_default_priority = ''Medium'',
      jira_initial_status = Some ''To Do'',
      slack_notification_channel = ''jira-notifications'',
      ai_detection_mode = ''strict'',
      ai_confidence_threshold = Finite (7 / 10),
      ai_model = ''model-1''\<rparr>"

text \<open>
  \<^verbatim>\<open>json.loads\<close> is not part of the repository. In the examples it is a decoder given by a
  table of documents: it answers as \<^verbatim>\<open>json.loads\<close> does on the documents of the table
  and rejects every other text. The examples apply it only to documents of the table and
  to texts that are not JSON.
\<close>

definition loads_table :: "(string \<times> pyval) list \<Rightarrow> string \<Rightarrow> exn + pyval" where
  "loads_table docs s = (case map_of docs s of None \<Rightarrow> Inl JSONDecodeError | Some v \<Rightarrow> Inr v)"

definition bug_json :: string where
  \<open>bug_json = ''{"should_create_ticket": true, "confidence": 0.9, "issue_type": "Bug", "summary": "Export button returns 500", "description": "The export button crashes", "priority": "High"}''\<close>

definition bug_verdict :: "(string \<times> pyval) list" where
  "bug_verdict =
     [(''should_create_ticket'', PBool True), (''confidence'', PFloat (Finite (9 / 10))),
      (''issue_type'', PStr ''Bug''), (''summary'', PStr ''Export button returns 500''),
      (''description'', PStr ''The export button crashes''), (''priority'', PStr ''High'')]"

definition quiet_json :: string where
  \<open>quiet_json = ''{"should_create_ticket": true, "confidence": 0.5, "issue_type": "Bug", "summary": "Export button returns 500", "description": "The export button crashes", "priority": "High"}''\<close>

definition quiet_verdict :: "(string \<times> pyval) list" where
  "quiet_verdict =
     [(''should_create_ticket'', PBool True), (''confidence'', PFloat (Finite (5 / 10))),
      (''issue_type'', PStr ''Bug''), (''summary'', PStr ''Export button returns 500''),
      (''description'', PStr ''The export button crashes''), (''priority'', PStr ''High'')]"

definition bare_json :: string where
  \<open>bare_json = ''{"should_create_ticket": true, "confidence": 1, "summary": "Add dark mode", "description": "Please add a dark mode"}''\<close>

definition bare_verdict :: "(string \<times> pyval) list" where
  "bare_verdict =
     [(''should_create_ticket'', PBool True), (''confidence'', PInt 1),
      (''summary'', PStr ''Add dark mode''), (''description'', PStr ''Please add a dark mode'')]"

definition snippet_json :: string where
  \<open>snippet_json = ''{"should_create_ticket": true, "confidence": 0.9, "summary": "Crash in parser", "description": "Fails on ```x = 1``` in a message"}''\<close>

definition snippet_verdict :: "(string \<times> pyval) list" where
  "snippet_verdict =
     [(''should_create_ticket'', PBool True), (''confidence'', PFloat (Finite (9 / 10))),
      (''summary'', PStr ''Crash in parser''),
      (''description'', PStr (''Fails on '' @ fence @ ''x = 1'' @ fence @ '' in a message''))]"

text \<open>What is left of the fenced \<open>snippet_json\<close> when the text is cut at the fence inside it.\<close>

definition snippet_cut :: string where
  \<open>snippet_cut = ''{"should_create_ticket": true, "confidence": 0.9, "summary": "Crash in parser", "description": "Fails on''\<close>

definition demo_loads :: "string \<Rightarrow> exn + pyval" where
  "demo_loads =
     loads_table [(bug_json, PDict bug_verdict), (quiet_json, PDict quiet_verdict),
                  (bare_json, PDict bare_verdict), (snippet_json, PDict snippet_verdict)]"

definition demo_user :: slack_user where
  "demo_user = \<lparr>real_name = Some ''Ada'', profile_email = Some (Some ''ada@example.com'')\<rparr>"

definition demo_issue :: issue where
  "demo_issue = \<lparr>issue_key = ''PROJ-1'', issue_status = ''Backlog''\<rparr>"

definition demo_event :: slack_event where
  "demo_event =
     \<lparr>ev_text = Some ''the export button crashes with a 500 error'',
      ev_user = Some ''U1'', ev_ts = Some ''1700000000.000100''\<rparr>"

text \<open>Services that all answer; the model answers with the given text.\<close>

definition demo_ext :: "string \<Rightarrow> ext" where
  "demo_ext response =
     \<lparr>messages_create = (\<lambda>_ _ _. Inr [response]),
      json_loads = demo_loads,
      str_other = (\<lambda>_. []),
      users_info = (\<lambda>_. Inr demo_user),
      now_text = ''2026-01-01 12:00:00'',
      create_issue = (\<lambda>_. Inr demo_issue),
      get_issue = (\<lambda>k. Inr \<lparr>issue_key = k, issue_status = ''Backlog''\<rparr>),
      get_transitions =
        (\<lambda>_. Inr [\<lparr>tr_id = ''11'', tr_to = ''To Do''\<rparr>, \<lparr>tr_id = ''21'', tr_to = ''In Progress''\<rparr>]),
      transition_issue = (\<lambda>_ _. Inr ()),
      chat_postMessage = (\<lambda>_. Inr ())\<rparr>"

text \<open>
  A model that writes the flag as a string: the answer says \<^verbatim>\<open>"false"\<close> where a JSON
  boolean is asked for.
\<close>

definition stringly_json :: string where
  \<open>stringly_json = ''{"should_create_ticket": "false", "confidence": 0.9, "issue_type": "Bug", "summary": "Export button returns 500", "description": "The export button crashes", "priority": "High"}''\<close>

definition stringly_verdict :: "(string \<times> pyval) list" where
  "stringly_verdict =
     [(''should_create_ticket'', PStr ''false''), (''confidence'', PFloat (Finite (9 / 10))),
      (''issue_type'', PStr ''Bug''), (''summary'', PStr ''Export button returns 500''),
      (''description'', PStr ''The export button crashes''), (''priority'', PStr ''High'')]"

definition stringly_ext :: ext where
  "stringly_ext =
     (demo_ext stringly_json)
       \<lparr>json_loads := loads_table [(stringly_json, PDict stringly_verdict)]\<rparr>"

text \<open>
  A project whose create screen has no priority field: Jira rejects a create call that
  sets the field, and accepts the same call without it.
\<close>

definition no_priority_error :: exn where
  "no_priority_error =
     ServiceError (''Field priority cannot be set. It is not on the appropriate screen, or unknown.'')"

definition no_priority_ext :: "string \<Rightarrow> ext" where
  "no_priority_ext response =
     (demo_ext response)
       \<lparr>create_issue :=
          (\<lambda>f. if f_priority f = None then Inr demo_issue else Inl no_priority_error)\<rparr>"

text \<open>A workspace where posting to the notification channel fails.\<close>

definition muted_ext :: ext where
  "muted_ext =
     (demo_ext bug_json)
       \<lparr>chat_postMessage :=
          (\<lambda>p. if post_channel p = ''jira-notifications''
                then Inl (ServiceError ''channel_not_found'') else Inr ())\<rparr>"

text \<open>A process environment with every secret, and constructors that succeed.\<close>

definition demo_env :: "string \<Rightarrow> string option" where
  "demo_env =
     map_of [(''SLACK_BOT_TOKEN'', ''xoxb-1''), (''SLACK_SIGNING_SECRET'', ''s3cret''),
             (''SLACK_APP_TOKEN'', ''xapp-1''), (''JIRA_EMAIL'', ''bot@example.com''),
             (''JIRA_API_TOKEN'', ''jira-1''), (''ANTHROPIC_API_KEY'', ''key-1'')]"

definition demo_boot :: "(string \<Rightarrow> string option) \<Rightarrow> boot" where
  "demo_boot env =
     \<lparr>getenv = env,
      new_slack_app = (\<lambda>_ _. Inr ()),
      new_jira = (\<lambda>_ _ _. Inr ()),
      new_anthropic = (\<lambda>_. Inr ()),
      socket_mode_start = (\<lambda>_. Inr ())\<rparr>"

section \<open>Properties\<close>

subsection \<open>Running a program\<close>

text \<open>
  Two ways to run a program by rewriting: on a first part whose outcome is known
  (\<open>prog_simps\<close>), and by projections with a case split on the outcome (\<open>run_simps\<close>).
\<close>

lemma and_then_Inr: "and_then (Inr a, evs) f = (fst (f a), evs @ snd (f a))"
  by (simp add: and_then_def split: prod.splits)

lemma and_then_Inl: "and_then (Inl e, evs) f = (Inl e, evs)"
  by (simp add: and_then_def)

lemma try_except_Inr: "try_except (Inr a, evs) h = (Inr a, evs)"
  by (simp add: try_except_def)

lemma try_except_Inl: "try_except (Inl e, evs) h = (fst (h e), evs @ snd (h e))"
  by (simp add: try_except_def split: prod.splits)

lemmas prog_simps =
  and_then_Inr and_then_Inl try_except_Inr try_except_Inl
  succeed_def raise_def lift_def emit_def call_def

lemma fst_and_then:
  "fst (and_then m f) = (case fst m of Inl e \<Rightarrow> Inl e | Inr a \<Rightarrow> fst (f a))"
  by (simp add: and_then_def split: prod.splits sum.splits)

lemma snd_and_then:
  "snd (and_then m f) = (case fst m of Inl e \<Rightarrow> snd m | Inr a \<Rightarrow> snd m @ snd (f a))"
  by (simp add: and_then_def split: prod.splits sum.splits)

lemma fst_try_except:
  "fst (try_except m h) = (case fst m of Inl e \<Rightarrow> fst (h e) | Inr a \<Rightarrow> Inr a)"
  by (simp add: try_except_def split: prod.splits sum.splits)

lemma snd_try_except:
  "snd (try_except m h) = (case fst m of Inl e \<Rightarrow> snd m @ snd (h e) | Inr a \<Rightarrow> snd m)"
  by (simp add: try_except_def split: prod.splits sum.splits)

lemmas run_simps =
  fst_and_then snd_and_then fst_try_except snd_try_except
  succeed_def raise_def lift_def emit_def call_def

subsection \<open>The outcomes of the methods\<close>

lemma analyze_message_positive:
  assumes "messages_create x (ai_model cfg) 1024 (build_prompt cfg m) = Inr (t # ts)"
    and "clean_response t = Inr s" and "json_loads x s = Inr (PDict d)"
    and "py_truthy (dict_get d ''should_create_ticket'' (PBool False))"
    and "py_ge (dict_get d ''confidence'' (PInt 0)) (ai_confidence_threshold cfg) = Inr True"
  shows "analyze_message x cfg m =
           (Inr (True, Some (ticket_info_of cfg d)),
            [MessagesCreate (ai_model cfg) 1024 (build_prompt cfg m),
             Log (LogAnalysis (PBool True) (dict_get d ''confidence'' PNone)
                    (dict_get d ''reasoning'' PNone))])"
  using assms by (simp add: analyze_message_def prog_simps list_index_def as_dict_def gate_def)

lemma analyze_message_shape:
  "(\<exists>d. positive x cfg m d \<and> analyze_message x cfg m =
           (Inr (True, Some (ticket_info_of cfg d)),
            [MessagesCreate (ai_model cfg) 1024 (build_prompt cfg m),
             Log (LogAnalysis (PBool True) (dict_get d ''confidence'' PNone)
                    (dict_get d ''reasoning'' PNone))]))
   \<or> (\<exists>lg. analyze_message x cfg m =
           (Inr (False, None), [MessagesCreate (ai_model cfg) 1024 (build_prompt cfg m), Log lg]))"
proof (cases "messages_create x (ai_model cfg) 1024 (build_prompt cfg m)")
  case (Inl e)
  then show ?thesis by (simp add: analyze_message_def prog_simps)
next
  case (Inr content)
  show ?thesis
  proof (cases content)
    case Nil
    with Inr show ?thesis by (simp add: analyze_message_def prog_simps list_index_def)
  next
    case (Cons t ts)
    note c = Inr [unfolded Cons]
    show ?thesis
    proof (cases "clean_response t")
      case (Inl e)
      with c show ?thesis by (simp add: analyze_message_def prog_simps list_index_def)
    next
      case (Inr s)
      note s = Inr
      show ?thesis
      proof (cases "json_loads x s")
        case (Inl e)
        with c s show ?thesis by (simp add: analyze_message_def prog_simps list_index_def)
      next
        case (Inr result)
        note r = Inr
        show ?thesis
        proof (cases "\<exists>d. result = PDict d")
          case False
          then have "as_dict result = Inl AttributeError"
            by (cases result) (simp_all add: as_dict_def)
          with c s r show ?thesis by (simp add: analyze_message_def prog_simps list_index_def)
        next
          case True
          then obtain d where d: "result = PDict d" by blast
          show ?thesis
          proof (cases "py_truthy (dict_get d ''should_create_ticket'' (PBool False))")
            case False
            with c s r d show ?thesis
              by (simp add: analyze_message_def prog_simps list_index_def as_dict_def gate_def)
          next
            case True
            note f = True
            show ?thesis
            proof (cases "py_ge (dict_get d ''confidence'' (PInt 0)) (ai_confidence_threshold cfg)")
              case (Inl e)
              with c s r d f show ?thesis
                by (simp add: analyze_message_def prog_simps list_index_def as_dict_def gate_def)
            next
              case (Inr b)
              show ?thesis
              proof (cases b)
                case True
                with Inr have g: "py_ge (dict_get d ''confidence'' (PInt 0)) (ai_confidence_threshold cfg) = Inr True"
                  by simp
                with c s r d f have "positive x cfg m d"
                  by (auto simp: positive_def)
                moreover note analyze_message_positive [OF c s r [unfolded d] f g]
                ultimately show ?thesis by blast
              next
                case False
                with Inr c s r d f show ?thesis
                  by (simp add: analyze_message_def prog_simps list_index_def as_dict_def gate_def)
              qed
            qed
          qed
        qed
      qed
    qed
  qed
qed


lemma send_notification_total: "fst (send_notification x cfg k url m ch u ts) = Inr ()"
  by (simp add: send_notification_def run_simps Let_def split: sum.splits)

lemma send_notification_no_create:
  "filter creates_issue (snd (send_notification x cfg k url m ch u ts)) = []"
  by (simp add: send_notification_def run_simps Let_def split: sum.splits)

lemma set_issue_status_total: "fst (set_issue_status x i desired) = Inr ()"
  by (simp add: set_issue_status_def run_simps Let_def split: sum.splits option.splits)

lemma set_issue_status_quiet:
  "filter creates_issue (snd (set_issue_status x i desired)) = []"
  "filter posts_message (snd (set_issue_status x i desired)) = []"
  by (simp_all add: set_issue_status_def run_simps Let_def split: sum.splits option.splits)

lemma build_issue_dict_ticket_info:
  "build_issue_dict x cfg (ticket_info_of cfg d) n e ch m =
     (Inr \<lparr>f_project = jira_project_key cfg,
           f_summary = dict_get d ''summary'' PNone,
           f_description =
             render_description n e ch m (py_str (str_other x) (dict_get d ''description'' PNone))
               (now_text x),
           f_issuetype = dict_get d ''issue_type'' (PStr (jira_default_issue_type cfg)),
           f_priority = Some (dict_get d ''priority'' (PStr (jira_default_priority cfg)))\<rparr>,
      [ClockRead])"
  by (simp add: build_issue_dict_def ticket_info_of_def dict_index_def prog_simps)


lemma build_issue_dict_fields:
  "build_issue_dict x cfg (ticket_info_of cfg d) n e ch m =
     (Inr (issue_dict_of x cfg d n e ch m), [ClockRead])"
  by (simp add: build_issue_dict_ticket_info issue_dict_of_def)

lemma create_jira_ticket_creates:
  "filter creates_issue (snd (create_jira_ticket x cfg (ticket_info_of cfg d) n e ch m)) =
     [CreateIssue (issue_dict_of x cfg d n e ch m)]"
  by (simp add: create_jira_ticket_def build_issue_dict_ticket_info run_simps issue_dict_of_def
        set_issue_status_quiet split: sum.splits option.splits)

lemma analyze_message_quiet:
  "filter creates_issue (snd (analyze_message x cfg m)) = []"
  "filter posts_message (snd (analyze_message x cfg m)) = []"
  using analyze_message_shape [of x cfg m] by auto

lemma process_message_negative:
  assumes "analyze_message x cfg (event_text ev) = (Inr (False, None), evs)"
  shows "process_message x cfg ev ch =
           (Inr (), Log (LogProcessing ch (take 100 (event_text ev))) # evs @
                    [Log (LogNoTicket (take 50 (event_text ev)))])"
  using assms by (simp add: process_message_def prog_simps Let_def)

lemma process_message_positive:
  assumes "analyze_message x cfg (event_text ev) = (Inr (True, Some (ticket_info_of cfg d)), evs)"
    and "users_info x (ev_user ev) = Inr u" and "real_name u = Some n"
  shows "filter creates_issue (snd (process_message x cfg ev ch)) =
           filter creates_issue evs @
           [CreateIssue (issue_dict_of x cfg d n (user_email u) ch (event_text ev))]"
  using assms
  by (simp add: process_message_def run_simps Let_def opt_dict_def user_real_name_def
        create_jira_ticket_creates send_notification_no_create split: sum.splits)


subsection \<open>Evaluating the concrete deployment\<close>

lemmas text_defs =
  clean_response_def py_strip_def startswith_def fence_def isspace_def py_split_def
  list_index_def

lemma clean_bug_json: "clean_response bug_json = Inr bug_json"
  by (simp add: bug_json_def text_defs)

lemma clean_quiet_json: "clean_response quiet_json = Inr quiet_json"
  by (simp add: quiet_json_def text_defs)

lemma clean_bare_json: "clean_response bare_json = Inr bare_json"
  by (simp add: bare_json_def text_defs)

lemma demo_loads_bug: "demo_loads bug_json = Inr (PDict bug_verdict)"
  by (simp add: demo_loads_def loads_table_def)

lemma demo_loads_quiet: "demo_loads quiet_json = Inr (PDict quiet_verdict)"
  by (simp add: demo_loads_def loads_table_def bug_json_def quiet_json_def)

lemma demo_loads_bare: "demo_loads bare_json = Inr (PDict bare_verdict)"
  by (simp add: demo_loads_def loads_table_def bug_json_def quiet_json_def bare_json_def)

lemma demo_run_bug_creates:
  "filter creates_issue (snd (process_message (demo_ext bug_json) demo_cfg demo_event ''bugs'')) =
     [CreateIssue (issue_dict_of (demo_ext bug_json) demo_cfg bug_verdict ''Ada'' ''ada@example.com''
        ''bugs'' ''the export button crashes with a 500 error'')]"
proof -
  have a: "analyze_message (demo_ext bug_json) demo_cfg (event_text demo_event) =
      (Inr (True, Some (ticket_info_of demo_cfg bug_verdict)),
       [MessagesCreate (ai_model demo_cfg) 1024 (build_prompt demo_cfg (event_text demo_event)),
        Log (LogAnalysis (PBool True) (dict_get bug_verdict ''confidence'' PNone)
               (dict_get bug_verdict ''reasoning'' PNone))])"
    by (rule analyze_message_positive [where t = bug_json and ts = "[]" and s = bug_json])
       (simp_all add: demo_ext_def clean_bug_json demo_loads_bug,
        simp_all add: bug_verdict_def dict_get_def py_ge_def demo_cfg_def)
  have "filter creates_issue (snd (process_message (demo_ext bug_json) demo_cfg demo_event ''bugs'')) =
     filter creates_issue [MessagesCreate (ai_model demo_cfg) 1024 (build_prompt demo_cfg (event_text demo_event)),
        Log (LogAnalysis (PBool True) (dict_get bug_verdict ''confidence'' PNone)
               (dict_get bug_verdict ''reasoning'' PNone))] @
     [CreateIssue (issue_dict_of (demo_ext bug_json) demo_cfg bug_verdict ''Ada'' (user_email demo_user)
        ''bugs'' (event_text demo_event))]"
    by (rule process_message_positive [OF a]) (simp_all add: demo_ext_def demo_user_def)
  then show ?thesis
    by (simp add: user_email_def demo_user_def event_text_def demo_event_def)
qed

section \<open>The claims\<close>

subsection \<open>C1: the gate before ticket creation\<close>

lemma clean_stringly_json: "clean_response stringly_json = Inr stringly_json"
  by (simp add: stringly_json_def text_defs)

lemma stringly_analysis:
  "analyze_message stringly_ext demo_cfg (event_text demo_event) =
      (Inr (True, Some (ticket_info_of demo_cfg stringly_verdict)),
       [MessagesCreate (ai_model demo_cfg) 1024 (build_prompt demo_cfg (event_text demo_event)),
        Log (LogAnalysis (PBool True) (dict_get stringly_verdict ''confidence'' PNone)
               (dict_get stringly_verdict ''reasoning'' PNone))])"
  by (rule analyze_message_positive [where t = stringly_json and ts = "[]" and s = stringly_json])
     (simp_all add: stringly_ext_def demo_ext_def clean_stringly_json loads_table_def,
      simp_all add: stringly_verdict_def dict_get_def py_ge_def demo_cfg_def)

lemma stringly_status:
  "set_issue_status stringly_ext demo_issue ''To Do'' =
     (Inr (),
      [GetIssue ''PROJ-1'',
       GetTransitions \<lparr>issue_key = ''PROJ-1'', issue_status = ''Backlog''\<rparr>,
       TransitionIssue \<lparr>issue_key = ''PROJ-1'', issue_status = ''Backlog''\<rparr> ''11'',
       Log (LogTransitioned ''PROJ-1'' ''Backlog'' ''To Do'')])"
  by (simp add: set_issue_status_def stringly_ext_def demo_ext_def demo_issue_def prog_simps Let_def)

lemma stringly_ticket:
  "create_jira_ticket stringly_ext demo_cfg (ticket_info_of demo_cfg stringly_verdict) ''Ada''
     ''ada@example.com'' ''bugs'' (event_text demo_event) =
     (Inr demo_issue,
      [ClockRead,
       CreateIssue (issue_dict_of stringly_ext demo_cfg stringly_verdict ''Ada'' ''ada@example.com''
                      ''bugs'' (event_text demo_event)),
       Log (LogIssueCreated ''PROJ-1'' (PStr ''Export button returns 500'')),
       GetIssue ''PROJ-1'',
       GetTransitions \<lparr>issue_key = ''PROJ-1'', issue_status = ''Backlog''\<rparr>,
       TransitionIssue \<lparr>issue_key = ''PROJ-1'', issue_status = ''Backlog''\<rparr> ''11'',
       Log (LogTransitioned ''PROJ-1'' ''Backlog'' ''To Do'')])"
proof -
  have c: "create_issue stringly_ext (issue_dict_of stringly_ext demo_cfg stringly_verdict ''Ada''
             ''ada@example.com'' ''bugs'' (event_text demo_event)) = Inr demo_issue"
    by (simp add: stringly_ext_def demo_ext_def)
  have i: "jira_initial_status demo_cfg = Some ''To Do''"
    by (simp add: demo_cfg_def)
  have k: "issue_key demo_issue = ''PROJ-1''"
    by (simp add: demo_issue_def)
  have s: "dict_index (ticket_info_of demo_cfg stringly_verdict) ''summary'' =
             Inr (PStr ''Export button returns 500'')"
    by (simp add: ticket_info_of_def dict_index_def stringly_verdict_def dict_get_def)
  show ?thesis
    by (simp add: create_jira_ticket_def build_issue_dict_fields c i k s stringly_status prog_simps)
qed

lemma stringly_notification:
  "send_notification stringly_ext demo_cfg ''PROJ-1'' ''https://example.atlassian.net/browse/PROJ-1''
     (event_text demo_event) ''bugs'' (Some ''U1'') (Some ''1700000000.000100'') =
     (Inr (),
      [PostMessage (broadcast_post demo_cfg
         (notification_text ''https://example.atlassian.net/browse/PROJ-1'' ''PROJ-1'' ''bugs''
            (Some ''U1'') (event_text demo_event))),
       PostMessage (thread_post ''bugs'' (Some ''1700000000.000100'')
          ''https://example.atlassian.net/browse/PROJ-1'' ''PROJ-1''),
       Log (LogNotificationSent ''PROJ-1'')])"
proof -
  have "\<And>p. chat_postMessage stringly_ext p = Inr ()"
    by (simp add: stringly_ext_def demo_ext_def)
  then show ?thesis
    by (simp add: send_notification_def prog_simps)
qed

lemma stringly_run:
  "process_message stringly_ext demo_cfg demo_event ''bugs'' =
     (Inr (),
      [Log (LogProcessing ''bugs'' (take 100 (event_text demo_event))),
       MessagesCreate (ai_model demo_cfg) 1024 (build_prompt demo_cfg (event_text demo_event)),
       Log (LogAnalysis (PBool True) (dict_get stringly_verdict ''confidence'' PNone)
              (dict_get stringly_verdict ''reasoning'' PNone)),
       Log (LogTicketWanted (PStr ''Export button returns 500'')),
       UsersInfo (Some ''U1''),
       ClockRead,
       CreateIssue (issue_dict_of stringly_ext demo_cfg stringly_verdict ''Ada'' ''ada@example.com''
                      ''bugs'' (event_text demo_event)),
       Log (LogIssueCreated ''PROJ-1'' (PStr ''Export button returns 500'')),
       GetIssue ''PROJ-1'',
       GetTransitions \<lparr>issue_key = ''PROJ-1'', issue_status = ''Backlog''\<rparr>,
       TransitionIssue \<lparr>issue_key = ''PROJ-1'', issue_status = ''Backlog''\<rparr> ''11'',
       Log (LogTransitioned ''PROJ-1'' ''Backlog'' ''To Do''),
       PostMessage (broadcast_post demo_cfg
         (notification_text ''https://example.atlassian.net/browse/PROJ-1'' ''PROJ-1'' ''bugs''
            (Some ''U1'') (event_text demo_event))),
       PostMessage (thread_post ''bugs'' (Some ''1700000000.000100'')
          ''https://example.atlassian.net/browse/PROJ-1'' ''PROJ-1''),
       Log (LogNotificationSent ''PROJ-1''),
       Log (LogTicketDone ''PROJ-1'')])"
proof -
  have u: "users_info stringly_ext (ev_user demo_event) = Inr demo_user"
    by (simp add: stringly_ext_def demo_ext_def)
  have e: "ev_user demo_event = Some ''U1''" "ev_ts demo_event = Some ''1700000000.000100''"
    by (simp_all add: demo_event_def)
  have n: "user_real_name demo_user = Inr ''Ada''" "user_email demo_user = ''ada@example.com''"
    by (simp_all add: user_real_name_def user_email_def demo_user_def)
  have k: "issue_key demo_issue = ''PROJ-1''"
    by (simp add: demo_issue_def)
  have j: "jira_url demo_cfg = ''https://example.atlassian.net''"
    by (simp add: demo_cfg_def)
  have g: "dict_get (ticket_info_of demo_cfg stringly_verdict) ''summary'' PNone =
             PStr ''Export button returns 500''"
    by (simp add: ticket_info_of_def stringly_verdict_def dict_get_def)
  show ?thesis
    by (simp add: process_message_def stringly_analysis Let_def opt_dict_def prog_simps
          u [unfolded e] e n k j g stringly_ticket stringly_notification)
qed

text \<open>
  C1, as stated, fails. The gate tests \<^verbatim>\<open>should_create_ticket\<close> as Python tests truth, not
  for being the boolean \<^verbatim>\<open>true\<close>: a model that writes the flag as the string
  \<^verbatim>\<open>"false"\<close>, with confidence 0.9 against the threshold 0.7, gets its issue created and
  both notifications posted, although the verdict's \<^verbatim>\<open>should_create_ticket\<close> is not true.
\<close>

theorem ticket_gate_counterexample:
  "map_of stringly_verdict ''should_create_ticket'' = Some (PStr ''false'')
   \<and> json_loads stringly_ext stringly_json = Inr (PDict stringly_verdict)
   \<and> filter creates_issue (snd (process_message stringly_ext demo_cfg demo_event ''bugs'')) =
       [CreateIssue
          \<lparr>f_project = ''PROJ'',
           f_summary = PStr ''Export button returns 500'',
           f_description =
             render_description ''Ada'' ''ada@example.com'' ''bugs''
               ''the export button crashes with a 500 error'' ''The export button crashes''
               ''2026-01-01 12:00:00'',
           f_issuetype = PStr ''Bug'',
           f_priority = Some (PStr ''High'')\<rparr>]
   \<and> filter posts_message (snd (process_message stringly_ext demo_cfg demo_event ''bugs'')) =
       [PostMessage (broadcast_post demo_cfg
          (notification_text ''https://example.atlassian.net/browse/PROJ-1'' ''PROJ-1'' ''bugs''
             (Some ''U1'') ''the export button crashes with a 500 error'')),
        PostMessage (thread_post ''bugs'' (Some ''1700000000.000100'')
          ''https://example.atlassian.net/browse/PROJ-1'' ''PROJ-1'')]"
proof -
  have 1: "map_of stringly_verdict ''should_create_ticket'' = Some (PStr ''false'')"
    by (simp add: stringly_verdict_def)
  have 2: "json_loads stringly_ext stringly_json = Inr (PDict stringly_verdict)"
    by (simp add: stringly_ext_def loads_table_def)
  have t: "event_text demo_event = ''the export button crashes with a 500 error''"
    by (simp add: event_text_def demo_event_def)
  have f: "issue_dict_of stringly_ext demo_cfg stringly_verdict ''Ada'' ''ada@example.com''
             ''bugs'' ''the export button crashes with a 500 error'' =
           \<lparr>f_project = ''PROJ'',
            f_summary = PStr ''Export button returns 500'',
            f_description =
              render_description ''Ada'' ''ada@example.com'' ''bugs''
                ''the export button crashes with a 500 error'' ''The export button crashes''
                ''2026-01-01 12:00:00'',
            f_issuetype = PStr ''Bug'',
            f_priority = Some (PStr ''High'')\<rparr>"
    by (simp add: issue_dict_of_def stringly_verdict_def dict_get_def py_str_def stringly_ext_def
          demo_ext_def demo_cfg_def)
  from 1 2 show ?thesis
    by (simp add: stringly_run t f)
qed

text \<open>
  C1, amended. For every inbound message, a Jira issue is created only when the verdict
  is positive: \<^verbatim>\<open>should_create_ticket\<close> is true as Python tests truth (it is not \<^verbatim>\<open>false\<close>,
  not \<^verbatim>\<open>null\<close>, not absent, not zero and not empty; for a JSON boolean: it is \<^verbatim>\<open>true\<close>) and
  \<^verbatim>\<open>confidence\<close> is a number that is at least the configured threshold. And when the
  model's answer decodes to a verdict whose \<^verbatim>\<open>should_create_ticket\<close> is \<^verbatim>\<open>false\<close> (or
  false as Python tests truth), or whose \<^verbatim>\<open>confidence\<close> is not at least the threshold
  (below it, or not a number at all), the run makes no issue-create call and posts no
  message to Slack.
\<close>

theorem ticket_only_through_gate:
  "(CreateIssue f \<in> set (snd (process_message x cfg ev ch)) \<longrightarrow>
      (\<exists>t ts s d.
          messages_create x (ai_model cfg) 1024 (build_prompt cfg (event_text ev)) = Inr (t # ts) \<and>
          clean_response t = Inr s \<and> json_loads x s = Inr (PDict d) \<and>
          py_truthy (dict_get d ''should_create_ticket'' (PBool False)) \<and>
          dict_get d ''should_create_ticket'' (PBool False) \<noteq> PBool False \<and>
          dict_get d ''should_create_ticket'' (PBool False) \<noteq> PNone \<and>
          py_ge (dict_get d ''confidence'' (PInt 0)) (ai_confidence_threshold cfg) = Inr True))
   \<and> (messages_create x (ai_model cfg) 1024 (build_prompt cfg (event_text ev)) = Inr (t # ts) \<and>
      clean_response t = Inr s \<and> json_loads x s = Inr (PDict d) \<and>
      (\<not> py_truthy (dict_get d ''should_create_ticket'' (PBool False)) \<or>
       dict_get d ''should_create_ticket'' (PBool False) = PBool False \<or>
       py_ge (dict_get d ''confidence'' (PInt 0)) (ai_confidence_threshold cfg) \<noteq> Inr True) \<longrightarrow>
      filter creates_issue (snd (process_message x cfg ev ch)) = [] \<and>
      filter posts_message (snd (process_message x cfg ev ch)) = [])"
proof (intro conjI impI)
  assume c: "CreateIssue f \<in> set (snd (process_message x cfg ev ch))"
  have "\<exists>d. positive x cfg (event_text ev) d"
  proof (rule ccontr)
    assume n: "\<not> (\<exists>d. positive x cfg (event_text ev) d)"
    with analyze_message_shape [of x cfg "event_text ev"]
    obtain lg where "analyze_message x cfg (event_text ev) =
        (Inr (False, None),
         [MessagesCreate (ai_model cfg) 1024 (build_prompt cfg (event_text ev)), Log lg])"
      by blast
    from process_message_negative [OF this, of ch] c show False
      by simp
  qed
  then obtain d where p: "positive x cfg (event_text ev) d" ..
  then have "py_truthy (dict_get d ''should_create_ticket'' (PBool False))"
    by (auto simp: positive_def)
  then have "dict_get d ''should_create_ticket'' (PBool False) \<noteq> PBool False"
    and "dict_get d ''should_create_ticket'' (PBool False) \<noteq> PNone"
    by auto
  with p show "\<exists>t ts s d.
          messages_create x (ai_model cfg) 1024 (build_prompt cfg (event_text ev)) = Inr (t # ts) \<and>
          clean_response t = Inr s \<and> json_loads x s = Inr (PDict d) \<and>
          py_truthy (dict_get d ''should_create_ticket'' (PBool False)) \<and>
          dict_get d ''should_create_ticket'' (PBool False) \<noteq> PBool False \<and>
          dict_get d ''should_create_ticket'' (PBool False) \<noteq> PNone \<and>
          py_ge (dict_get d ''confidence'' (PInt 0)) (ai_confidence_threshold cfg) = Inr True"
    unfolding positive_def by blast
next
  assume h: "messages_create x (ai_model cfg) 1024 (build_prompt cfg (event_text ev)) = Inr (t # ts) \<and>
      clean_response t = Inr s \<and> json_loads x s = Inr (PDict d) \<and>
      (\<not> py_truthy (dict_get d ''should_create_ticket'' (PBool False)) \<or>
       dict_get d ''should_create_ticket'' (PBool False) = PBool False \<or>
       py_ge (dict_get d ''confidence'' (PInt 0)) (ai_confidence_threshold cfg) \<noteq> Inr True)"
  then have "\<not> (\<exists>d'. positive x cfg (event_text ev) d')"
    by (auto simp: positive_def)
  with analyze_message_shape [of x cfg "event_text ev"]
  obtain lg where "analyze_message x cfg (event_text ev) =
      (Inr (False, None),
       [MessagesCreate (ai_model cfg) 1024 (build_prompt cfg (event_text ev)), Log lg])"
    by blast
  from process_message_negative [OF this, of ch]
  show "filter creates_issue (snd (process_message x cfg ev ch)) = []"
    and "filter posts_message (snd (process_message x cfg ev ch)) = []"
    by simp_all
qed

text \<open>
  The scenario of the specification: with confidence 0.9 the issue is created, and the
  verdict was positive; with confidence 0.5 against the threshold 0.7 nothing is created
  and nothing is posted.
\<close>

theorem ticket_only_through_gate_witness:
  "CreateIssue (issue_dict_of (demo_ext bug_json) demo_cfg bug_verdict ''Ada'' ''ada@example.com''
        ''bugs'' ''the export button crashes with a 500 error'')
     \<in> set (snd (process_message (demo_ext bug_json) demo_cfg demo_event ''bugs''))
   \<and> (\<exists>d. json_loads (demo_ext bug_json) bug_json = Inr (PDict d) \<and>
          dict_get d ''should_create_ticket'' (PBool False) = PBool True \<and>
          py_ge (dict_get d ''confidence'' (PInt 0)) (ai_confidence_threshold demo_cfg) = Inr True)
   \<and> py_ge (dict_get quiet_verdict ''confidence'' (PInt 0)) (ai_confidence_threshold demo_cfg) = Inr False
   \<and> filter creates_issue (snd (process_message (demo_ext quiet_json) demo_cfg demo_event ''bugs'')) = []
   \<and> filter posts_message (snd (process_message (demo_ext quiet_json) demo_cfg demo_event ''bugs'')) = []"
proof -
  have m: "CreateIssue (issue_dict_of (demo_ext bug_json) demo_cfg bug_verdict ''Ada'' ''ada@example.com''
        ''bugs'' ''the export button crashes with a 500 error'')
     \<in> set (snd (process_message (demo_ext bug_json) demo_cfg demo_event ''bugs''))"
  proof -
    have "CreateIssue (issue_dict_of (demo_ext bug_json) demo_cfg bug_verdict ''Ada'' ''ada@example.com''
        ''bugs'' ''the export button crashes with a 500 error'')
     \<in> set (filter creates_issue (snd (process_message (demo_ext bug_json) demo_cfg demo_event ''bugs'')))"
      by (simp add: demo_run_bug_creates)
    then show ?thesis by simp
  qed
  have q: "py_ge (dict_get quiet_verdict ''confidence'' (PInt 0)) (ai_confidence_threshold demo_cfg) = Inr False"
    by (simp add: quiet_verdict_def dict_get_def py_ge_def demo_cfg_def)
  have h: "messages_create (demo_ext quiet_json) (ai_model demo_cfg) 1024
             (build_prompt demo_cfg (event_text demo_event)) = Inr (quiet_json # []) \<and>
      clean_response quiet_json = Inr quiet_json \<and>
      json_loads (demo_ext quiet_json) quiet_json = Inr (PDict quiet_verdict) \<and>
      (\<not> py_truthy (dict_get quiet_verdict ''should_create_ticket'' (PBool False)) \<or>
       dict_get quiet_verdict ''should_create_ticket'' (PBool False) = PBool False \<or>
       py_ge (dict_get quiet_verdict ''confidence'' (PInt 0)) (ai_confidence_threshold demo_cfg) \<noteq> Inr True)"
    using q by (simp add: demo_ext_def clean_quiet_json demo_loads_quiet)
  from ticket_only_through_gate [of _ "demo_ext bug_json" demo_cfg demo_event "''bugs''"] m
  obtain t ts s d where
    g: "messages_create (demo_ext bug_json) (ai_model demo_cfg) 1024
          (build_prompt demo_cfg (event_text demo_event)) = Inr (t # ts)"
      "clean_response t = Inr s" "json_loads (demo_ext bug_json) s = Inr (PDict d)"
      "py_ge (dict_get d ''confidence'' (PInt 0)) (ai_confidence_threshold demo_cfg) = Inr True"
    by blast
  from g(1) have "t = bug_json"
    by (simp add: demo_ext_def)
  with g(2) have "s = bug_json"
    by (simp add: clean_bug_json)
  with g(3) have l: "json_loads (demo_ext bug_json) bug_json = Inr (PDict d)"
    by simp
  then have "d = bug_verdict"
    by (simp add: demo_ext_def demo_loads_bug)
  then have "dict_get d ''should_create_ticket'' (PBool False) = PBool True"
    by (simp add: bug_verdict_def dict_get_def)
  with l g(4)
  have p: "\<exists>d. json_loads (demo_ext bug_json) bug_json = Inr (PDict d) \<and>
          dict_get d ''should_create_ticket'' (PBool False) = PBool True \<and>
          py_ge (dict_get d ''confidence'' (PInt 0)) (ai_confidence_threshold demo_cfg) = Inr True"
    by blast
  from ticket_only_through_gate [of _ "demo_ext quiet_json" demo_cfg demo_event "''bugs''"
         quiet_json "[]" quiet_json quiet_verdict] h
  have "filter creates_issue (snd (process_message (demo_ext quiet_json) demo_cfg demo_event ''bugs'')) = [] \<and>
      filter posts_message (snd (process_message (demo_ext quiet_json) demo_cfg demo_event ''bugs'')) = []"
    by blast
  with m p q show ?thesis by blast
qed

subsection \<open>C2: the create call of a positive verdict\<close>

text \<open>
  C2, as stated, fails twice. A positive verdict alone does not bring about a create
  call: the reporter is looked up first (\<^verbatim>\<open>client.users_info\<close>), under the same \<^verbatim>\<open>try\<close>,
  and when the lookup raises the run ends without any create call. And when the call is
  made, its description is not the verdict's description: it is the context template
  (reporter, channel, quoted message, time of creation) with the verdict's description
  inside.
\<close>

theorem one_create_call_counterexample:
  "positive ((demo_ext bug_json)\<lparr>users_info := (\<lambda>_. Inl (ServiceError ''user_not_found''))\<rparr>)
     demo_cfg (event_text demo_event) bug_verdict
   \<and> filter creates_issue
       (snd (process_message
               ((demo_ext bug_json)\<lparr>users_info := (\<lambda>_. Inl (ServiceError ''user_not_found''))\<rparr>)
               demo_cfg demo_event ''bugs'')) = []
   \<and> map_of bug_verdict ''description'' = Some (PStr ''The export button crashes'')
   \<and> map f_description
       (concat (map (\<lambda>ev. case ev of CreateIssue f \<Rightarrow> [f] | _ \<Rightarrow> [])
          (snd (process_message (demo_ext bug_json) demo_cfg demo_event ''bugs'')))) =
       [''*Reported by:* Ada (ada@example.com)'' @ nl @
             ''*Slack Channel:* #bugs'' @ nl @
             ''*Original Message:*'' @ nl @
             ''{quote}'' @ nl @
             ''the export button crashes with a 500 error'' @ nl @
             ''{quote}'' @ nl @
             nl @
             ''---'' @ nl @
             nl @
             ''*AI-Generated Description:*'' @ nl @
             ''The export button crashes'' @ nl @
             nl @
             ''---'' @ nl @
             ''_This ticket was automatically created by the Jira-Slack AI Agent on 2026-01-01 12:00:00_'' @ nl]
   \<and> (''*Reported by:* Ada (ada@example.com)'' @ nl @
             ''*Slack Channel:* #bugs'' @ nl @
             ''*Original Message:*'' @ nl @
             ''{quote}'' @ nl @
             ''the export button crashes with a 500 error'' @ nl @
             ''{quote}'' @ nl @
             nl @
             ''---'' @ nl @
             nl @
             ''*AI-Generated Description:*'' @ nl @
             ''The export button crashes'' @ nl @
             nl @
             ''---'' @ nl @
             ''_This ticket was automatically created by the Jira-Slack AI Agent on 2026-01-01 12:00:00_'' @ nl) \<noteq> ''The export button crashes''"
proof -
  let ?x = "(demo_ext bug_json)\<lparr>users_info := (\<lambda>_. Inl (ServiceError ''user_not_found''))\<rparr>"
  have p: "positive ?x demo_cfg (event_text demo_event) bug_verdict"
    by (simp add: positive_def demo_ext_def clean_bug_json demo_loads_bug)
       (simp add: bug_verdict_def dict_get_def py_ge_def demo_cfg_def)
  have a: "analyze_message ?x demo_cfg (event_text demo_event) =
      (Inr (True, Some (ticket_info_of demo_cfg bug_verdict)),
       [MessagesCreate (ai_model demo_cfg) 1024 (build_prompt demo_cfg (event_text demo_event)),
        Log (LogAnalysis (PBool True) (dict_get bug_verdict ''confidence'' PNone)
               (dict_get bug_verdict ''reasoning'' PNone))])"
    by (rule analyze_message_positive [where t = bug_json and ts = "[]" and s = bug_json])
       (simp_all add: demo_ext_def clean_bug_json demo_loads_bug,
        simp_all add: bug_verdict_def dict_get_def py_ge_def demo_cfg_def)
  have u: "users_info ?x (ev_user demo_event) = Inl (ServiceError ''user_not_found'')"
    by simp
  have n: "filter creates_issue (snd (process_message ?x demo_cfg demo_event ''bugs'')) = []"
    by (simp add: process_message_def a u prog_simps Let_def opt_dict_def)
  have v: "map_of bug_verdict ''description'' = Some (PStr ''The export button crashes'')"
    by (simp add: bug_verdict_def)
  have c: "concat (map (\<lambda>ev. case ev of CreateIssue f \<Rightarrow> [f] | _ \<Rightarrow> []) evs) =
           concat (map (\<lambda>ev. case ev of CreateIssue f \<Rightarrow> [f] | _ \<Rightarrow> []) (filter creates_issue evs))"
    for evs
    by (induction evs) (auto split: event.splits)
  have d: "f_description (issue_dict_of (demo_ext bug_json) demo_cfg bug_verdict ''Ada''
             ''ada@example.com'' ''bugs'' ''the export button crashes with a 500 error'') =
           ''*Reported by:* Ada (ada@example.com)'' @ nl @
             ''*Slack Channel:* #bugs'' @ nl @
             ''*Original Message:*'' @ nl @
             ''{quote}'' @ nl @
             ''the export button crashes with a 500 error'' @ nl @
             ''{quote}'' @ nl @
             nl @
             ''---'' @ nl @
             nl @
             ''*AI-Generated Description:*'' @ nl @
             ''The export button crashes'' @ nl @
             nl @
             ''---'' @ nl @
             ''_This ticket was automatically created by the Jira-Slack AI Agent on 2026-01-01 12:00:00_'' @ nl"
    by (simp add: issue_dict_of_def render_description_def py_str_def bug_verdict_def dict_get_def
          demo_ext_def)
  have m: "map f_description
       (concat (map (\<lambda>ev. case ev of CreateIssue f \<Rightarrow> [f] | _ \<Rightarrow> [])
          (snd (process_message (demo_ext bug_json) demo_cfg demo_event ''bugs'')))) =
       [''*Reported by:* Ada (ada@example.com)'' @ nl @
             ''*Slack Channel:* #bugs'' @ nl @
             ''*Original Message:*'' @ nl @
             ''{quote}'' @ nl @
             ''the export button crashes with a 500 error'' @ nl @
             ''{quote}'' @ nl @
             nl @
             ''---'' @ nl @
             nl @
             ''*AI-Generated Description:*'' @ nl @
             ''The export button crashes'' @ nl @
             nl @
             ''---'' @ nl @
             ''_This ticket was automatically created by the Jira-Slack AI Agent on 2026-01-01 12:00:00_'' @ nl]"
    by (subst c) (simp add: demo_run_bug_creates d)
  from p n v m show ?thesis
    by simp
qed

text \<open>
  C2, amended. For every positive verdict whose reporter lookup succeeds (the user has a
  \<^verbatim>\<open>real_name\<close>), exactly one issue-create call is made, whatever the tracker answers.
  Its summary is the verdict's summary; its issue type and priority are the verdict's,
  or the configured defaults when the verdict has no such key; its description is the
  text below: the reporter's name and email (\<^verbatim>\<open>unknown\<close> without one), the channel, the
  original message between two \<^verbatim>\<open>{quote}\<close> lines, the verdict's description (\<^verbatim>\<open>None\<close> when
  the verdict has none) and the time of creation.
\<close>

theorem one_create_call:
  assumes "positive x cfg (event_text ev) d"
    and "users_info x (ev_user ev) = Inr u"
    and "real_name u = Some n"
  shows "filter creates_issue (snd (process_message x cfg ev ch)) =
           [CreateIssue
              \<lparr>f_project = jira_project_key cfg,
               f_summary = (case map_of d ''summary'' of None \<Rightarrow> PNone | Some v \<Rightarrow> v),
               f_description =
                 ''*Reported by:* '' @ n @ '' ('' @
                   (case profile_email u of
                      None \<Rightarrow> ''unknown'' | Some None \<Rightarrow> ''unknown'' | Some (Some e) \<Rightarrow> e) @
                   '')'' @ nl @
                 ''*Slack Channel:* #'' @ ch @ nl @
                 ''*Original Message:*'' @ nl @
                 ''{quote}'' @ nl @
                 (case ev_text ev of None \<Rightarrow> [] | Some t \<Rightarrow> t) @ nl @
                 ''{quote}'' @ nl @
                 nl @
                 ''---'' @ nl @
                 nl @
                 ''*AI-Generated Description:*'' @ nl @
                 (case map_of d ''description'' of
                    None \<Rightarrow> ''None''
                  | Some v \<Rightarrow>
                      (case v of
                         PStr s \<Rightarrow> s
                       | PNone \<Rightarrow> ''None''
                       | PBool b \<Rightarrow> (if b then ''True'' else ''False'')
                       | _ \<Rightarrow> str_other x v)) @ nl @
                 nl @
                 ''---'' @ nl @
                 ''_This ticket was automatically created by the Jira-Slack AI Agent on '' @
                   now_text x @ ''_'' @ nl,
               f_issuetype =
                 (case map_of d ''issue_type'' of
                    None \<Rightarrow> PStr (jira_default_issue_type cfg) | Some v \<Rightarrow> v),
               f_priority =
                 Some (case map_of d ''priority'' of
                         None \<Rightarrow> PStr (jira_default_priority cfg) | Some v \<Rightarrow> v)\<rparr>]"
proof -
  from assms(1) obtain t ts s where
    "messages_create x (ai_model cfg) 1024 (build_prompt cfg (event_text ev)) = Inr (t # ts)"
    "clean_response t = Inr s" "json_loads x s = Inr (PDict d)"
    "py_truthy (dict_get d ''should_create_ticket'' (PBool False))"
    "py_ge (dict_get d ''confidence'' (PInt 0)) (ai_confidence_threshold cfg) = Inr True"
    by (auto simp: positive_def)
  note a = analyze_message_positive [OF this]
  have e: "user_email u =
      (case profile_email u of
         None \<Rightarrow> ''unknown'' | Some None \<Rightarrow> ''unknown'' | Some (Some e) \<Rightarrow> e)"
    by (simp add: user_email_def)
  have p: "py_str (str_other x) (dict_get d ''description'' PNone) =
      (case map_of d ''description'' of
         None \<Rightarrow> ''None''
       | Some v \<Rightarrow>
           (case v of
              PStr s \<Rightarrow> s
            | PNone \<Rightarrow> ''None''
            | PBool b \<Rightarrow> (if b then ''True'' else ''False'')
            | _ \<Rightarrow> str_other x v))"
    by (simp add: py_str_def dict_get_def split: option.splits)
  from process_message_positive [OF a assms(2) assms(3), of ch]
  show ?thesis
    unfolding issue_dict_of_def render_description_def e p
    by (simp add: dict_get_def event_text_def)
qed

text \<open>A verdict without issue type and priority: the defaults Task and Medium are sent.\<close>

theorem one_create_call_witness:
  "positive (demo_ext bare_json) demo_cfg (event_text demo_event) bare_verdict
   \<and> users_info (demo_ext bare_json) (ev_user demo_event) = Inr demo_user
   \<and> real_name demo_user = Some ''Ada''
   \<and> filter creates_issue (snd (process_message (demo_ext bare_json) demo_cfg demo_event ''bugs'')) =
       [CreateIssue
          \<lparr>f_project = ''PROJ'',
           f_summary = PStr ''Add dark mode'',
           f_description =
             ''*Reported by:* Ada (ada@example.com)'' @ nl @
             ''*Slack Channel:* #bugs'' @ nl @
             ''*Original Message:*'' @ nl @
             ''{quote}'' @ nl @
             ''the export button crashes with a 500 error'' @ nl @
             ''{quote}'' @ nl @
             nl @
             ''---'' @ nl @
             nl @
             ''*AI-Generated Description:*'' @ nl @
             ''Please add a dark mode'' @ nl @
             nl @
             ''---'' @ nl @
             ''_This ticket was automatically created by the Jira-Slack AI Agent on 2026-01-01 12:00:00_'' @ nl,
           f_issuetype = PStr ''Task'',
           f_priority = Some (PStr ''Medium'')\<rparr>]"
proof -
  have p: "positive (demo_ext bare_json) demo_cfg (event_text demo_event) bare_verdict"
    by (simp add: positive_def demo_ext_def clean_bare_json demo_loads_bare)
       (simp add: bare_verdict_def dict_get_def py_ge_def demo_cfg_def)
  have u: "users_info (demo_ext bare_json) (ev_user demo_event) = Inr demo_user"
    by (simp add: demo_ext_def)
  have r: "real_name demo_user = Some ''Ada''"
    by (simp add: demo_user_def)
  from one_create_call [OF p u r, of "''bugs''"] p u r
  show ?thesis
    by (simp add: demo_cfg_def demo_ext_def demo_user_def demo_event_def bare_verdict_def)
qed

subsection \<open>C3: the priority field\<close>

text \<open>
  C3 asks that a project without a priority field still gets its issue. The code does not
  do that: the \<^verbatim>\<open>try\<close> guards only the assignment into the dictionary, which cannot fail
  for the dictionaries the classifier builds, so the fields of the create call always
  carry a priority. For a tracker that rejects the field (and would accept the same
  fields without it) the one create call fails, the error is absorbed by
  \<^verbatim>\<open>_process_message\<close>, and no issue and no notification result.
\<close>

theorem priority_always_sent:
  "build_issue_dict x cfg (ticket_info_of cfg d) n e ch m =
     (Inr (issue_dict_of x cfg d n e ch m), [ClockRead])
   \<and> f_priority (issue_dict_of x cfg d n e ch m) =
       Some (dict_get d ''priority'' (PStr (jira_default_priority cfg)))
   \<and> create_issue (no_priority_ext bug_json)
       ((issue_dict_of (no_priority_ext bug_json) demo_cfg bug_verdict ''Ada'' ''ada@example.com''
           ''bugs'' ''the export button crashes with a 500 error'')\<lparr>f_priority := None\<rparr>) = Inr demo_issue
   \<and> process_message (no_priority_ext bug_json) demo_cfg demo_event ''bugs'' =
       (Inr (),
        [Log (LogProcessing ''bugs'' ''the export button crashes with a 500 error''),
         MessagesCreate ''model-1'' 1024
           (build_prompt demo_cfg ''the export button crashes with a 500 error''),
         Log (LogAnalysis (PBool True) (PFloat (Finite (9 / 10))) PNone),
         Log (LogTicketWanted (PStr ''Export button returns 500'')),
         UsersInfo (Some ''U1''),
         ClockRead,
         CreateIssue
           \<lparr>f_project = ''PROJ'',
            f_summary = PStr ''Export button returns 500'',
            f_description =
              render_description ''Ada'' ''ada@example.com'' ''bugs''
                ''the export button crashes with a 500 error'' ''The export button crashes''
                ''2026-01-01 12:00:00'',
            f_issuetype = PStr ''Bug'',
            f_priority = Some (PStr ''High'')\<rparr>,
         Log (LogProcessingError no_priority_error)])"
proof -
  let ?x = "no_priority_ext bug_json"
  have a: "analyze_message ?x demo_cfg (event_text demo_event) =
      (Inr (True, Some (ticket_info_of demo_cfg bug_verdict)),
       [MessagesCreate (ai_model demo_cfg) 1024 (build_prompt demo_cfg (event_text demo_event)),
        Log (LogAnalysis (PBool True) (dict_get bug_verdict ''confidence'' PNone)
               (dict_get bug_verdict ''reasoning'' PNone))])"
    by (rule analyze_message_positive [where t = bug_json and ts = "[]" and s = bug_json])
       (simp_all add: no_priority_ext_def demo_ext_def clean_bug_json demo_loads_bug,
        simp_all add: bug_verdict_def dict_get_def py_ge_def demo_cfg_def)
  have c: "create_jira_ticket ?x demo_cfg (ticket_info_of demo_cfg bug_verdict) ''Ada''
             ''ada@example.com'' ''bugs'' (event_text demo_event) =
           (Inl no_priority_error,
            [ClockRead,
             CreateIssue (issue_dict_of ?x demo_cfg bug_verdict ''Ada'' ''ada@example.com'' ''bugs''
                            (event_text demo_event))])"
  proof -
    have "create_issue ?x (issue_dict_of ?x demo_cfg bug_verdict ''Ada'' ''ada@example.com'' ''bugs''
                            (event_text demo_event)) = Inl no_priority_error"
      by (simp add: no_priority_ext_def issue_dict_of_def)
    then show ?thesis
      by (simp add: create_jira_ticket_def build_issue_dict_fields prog_simps)
  qed
  have u: "users_info ?x (ev_user demo_event) = Inr demo_user"
    by (simp add: no_priority_ext_def demo_ext_def)
  have "process_message ?x demo_cfg demo_event ''bugs'' =
       (Inr (),
        [Log (LogProcessing ''bugs'' (take 100 (event_text demo_event))),
         MessagesCreate (ai_model demo_cfg) 1024 (build_prompt demo_cfg (event_text demo_event)),
         Log (LogAnalysis (PBool True) (dict_get bug_verdict ''confidence'' PNone)
               (dict_get bug_verdict ''reasoning'' PNone)),
         Log (LogTicketWanted (dict_get (ticket_info_of demo_cfg bug_verdict) ''summary'' PNone)),
         UsersInfo (ev_user demo_event),
         ClockRead,
         CreateIssue (issue_dict_of ?x demo_cfg bug_verdict ''Ada'' ''ada@example.com'' ''bugs''
                            (event_text demo_event)),
         Log (LogProcessingError no_priority_error)])"
    by (simp add: process_message_def a u c prog_simps Let_def opt_dict_def
          user_real_name_def user_email_def demo_user_def)
  then have "process_message ?x demo_cfg demo_event ''bugs'' =
       (Inr (),
        [Log (LogProcessing ''bugs'' ''the export button crashes with a 500 error''),
         MessagesCreate ''model-1'' 1024
           (build_prompt demo_cfg ''the export button crashes with a 500 error''),
         Log (LogAnalysis (PBool True) (PFloat (Finite (9 / 10))) PNone),
         Log (LogTicketWanted (PStr ''Export button returns 500'')),
         UsersInfo (Some ''U1''),
         ClockRead,
         CreateIssue
           \<lparr>f_project = ''PROJ'',
            f_summary = PStr ''Export button returns 500'',
            f_description =
              render_description ''Ada'' ''ada@example.com'' ''bugs''
                ''the export button crashes with a 500 error'' ''The export button crashes''
                ''2026-01-01 12:00:00'',
            f_issuetype = PStr ''Bug'',
            f_priority = Some (PStr ''High'')\<rparr>,
         Log (LogProcessingError no_priority_error)])"
    by (simp add: event_text_def demo_event_def issue_dict_of_def ticket_info_of_def
          bug_verdict_def dict_get_def py_str_def no_priority_ext_def demo_ext_def demo_cfg_def)
  moreover have "create_issue ?x
       ((issue_dict_of ?x demo_cfg bug_verdict ''Ada'' ''ada@example.com''
           ''bugs'' ''the export button crashes with a 500 error'')\<lparr>f_priority := None\<rparr>) = Inr demo_issue"
    by (simp add: no_priority_ext_def)
  ultimately show ?thesis
    by (simp add: build_issue_dict_fields) (simp add: issue_dict_of_def)
qed


subsection \<open>C4: secrets and sessions at startup\<close>

text \<open>What \<^verbatim>\<open>main\<close> does, stage by stage: each client checks its own secrets just before it is constructed.\<close>

lemmas startup_defs =
  main_def agent_init_def init_slack_def init_jira_def init_anthropic_def start_def

lemma main_outcome:
  "main b cfg =
     (let tok = str_opt (getenv b ''SLACK_BOT_TOKEN'');
          sec = str_opt (getenv b ''SLACK_SIGNING_SECRET'');
          email = str_opt (getenv b ''JIRA_EMAIL'');
          jtok = str_opt (getenv b ''JIRA_API_TOKEN'');
          akey = str_opt (getenv b ''ANTHROPIC_API_KEY'');
          app = str_opt (getenv b ''SLACK_APP_TOKEN'')
      in
      if unset (getenv b ''SLACK_BOT_TOKEN'') \<or> unset (getenv b ''SLACK_SIGNING_SECRET'')
      then (Inl (ValueError slack_secrets_message), [Log (LogFatal (ValueError slack_secrets_message))])
      else case new_slack_app b tok sec of
        Inl e \<Rightarrow> (Inl e, [NewSlackApp tok sec, Log (LogFatal e)])
      | Inr _ \<Rightarrow>
      if unset (getenv b ''JIRA_EMAIL'') \<or> unset (getenv b ''JIRA_API_TOKEN'')
      then (Inl (ValueError jira_secrets_message),
            [NewSlackApp tok sec, Log LogSlackInitialized,
             Log (LogFatal (ValueError jira_secrets_message))])
      else case new_jira b (jira_url cfg) email jtok of
        Inl e \<Rightarrow> (Inl e, [NewSlackApp tok sec, Log LogSlackInitialized,
                          NewJira (jira_url cfg) email jtok, Log (LogFatal e)])
      | Inr _ \<Rightarrow>
      if unset (getenv b ''ANTHROPIC_API_KEY'')
      then (Inl (ValueError anthropic_secret_message),
            [NewSlackApp tok sec, Log LogSlackInitialized,
             NewJira (jira_url cfg) email jtok, Log (LogJiraInitialized (jira_url cfg)),
             Log (LogFatal (ValueError anthropic_secret_message))])
      else case new_anthropic b akey of
        Inl e \<Rightarrow> (Inl e, [NewSlackApp tok sec, Log LogSlackInitialized,
                          NewJira (jira_url cfg) email jtok, Log (LogJiraInitialized (jira_url cfg)),
                          NewAnthropic akey, Log (LogFatal e)])
      | Inr _ \<Rightarrow>
      if unset (getenv b ''SLACK_APP_TOKEN'')
      then (Inl (ValueError app_token_message),
            [NewSlackApp tok sec, Log LogSlackInitialized,
             NewJira (jira_url cfg) email jtok, Log (LogJiraInitialized (jira_url cfg)),
             NewAnthropic akey, Log LogAnthropicInitialized, Log LogAgentInitialized,
             Log (LogFatal (ValueError app_token_message))])
      else case socket_mode_start b app of
        Inl e \<Rightarrow> (Inl e, [NewSlackApp tok sec, Log LogSlackInitialized,
                          NewJira (jira_url cfg) email jtok, Log (LogJiraInitialized (jira_url cfg)),
                          NewAnthropic akey, Log LogAnthropicInitialized, Log LogAgentInitialized,
                          Log LogStarting, SocketModeStart app, Log (LogFatal e)])
      | Inr _ \<Rightarrow> (Inr (), [NewSlackApp tok sec, Log LogSlackInitialized,
                          NewJira (jira_url cfg) email jtok, Log (LogJiraInitialized (jira_url cfg)),
                          NewAnthropic akey, Log LogAnthropicInitialized, Log LogAgentInitialized,
                          Log LogStarting, SocketModeStart app]))"
  by (simp add: startup_defs prog_simps Let_def split: sum.splits)


lemma demo_env_values:
  "demo_env ''SLACK_BOT_TOKEN'' = Some ''xoxb-1''"
  "demo_env ''SLACK_SIGNING_SECRET'' = Some ''s3cret''"
  "demo_env ''SLACK_APP_TOKEN'' = Some ''xapp-1''"
  "demo_env ''JIRA_EMAIL'' = Some ''bot@example.com''"
  "demo_env ''JIRA_API_TOKEN'' = Some ''jira-1''"
  "demo_env ''ANTHROPIC_API_KEY'' = Some ''key-1''"
  by (simp_all add: demo_env_def)

text \<open>
  C4, as stated, fails: with every secret but the model API key, the Slack app and the
  Jira client are constructed (their sessions are open) before startup fails.
\<close>

theorem secrets_before_sessions_counterexample:
  "unset (getenv (demo_boot (demo_env(''ANTHROPIC_API_KEY'' := None))) ''ANTHROPIC_API_KEY'')
   \<and> main (demo_boot (demo_env(''ANTHROPIC_API_KEY'' := None))) demo_cfg =
       (Inl (ValueError anthropic_secret_message),
        [NewSlackApp ''xoxb-1'' ''s3cret'',
         Log LogSlackInitialized,
         NewJira ''https://example.atlassian.net'' ''bot@example.com'' ''jira-1'',
         Log (LogJiraInitialized ''https://example.atlassian.net''),
         Log (LogFatal (ValueError anthropic_secret_message))])"
  by (simp add: main_outcome demo_boot_def demo_env_values demo_cfg_def unset_def str_opt_def)

text \<open>
  C4, amended. A missing (unset or empty) secret makes startup fail before the client
  that needs it is constructed, and before the socket-mode connection is started; the
  clients earlier in the order Slack app, Jira client, model client may already have been
  constructed. A missing bot token or signing secret fails before any session, with the
  error that names both variables. A missing Jira email or API token lets at most the
  Slack app be constructed; a missing model API key at most the Slack app and the Jira
  client; a missing socket token at most the three clients. In each case the error is
  the \<^verbatim>\<open>ValueError\<close> that names the missing variable when the earlier clients are ready
  (their secrets are set and their constructors did not raise).
\<close>

theorem missing_secret_stops_startup:
  "(unset (getenv b ''SLACK_BOT_TOKEN'') \<or> unset (getenv b ''SLACK_SIGNING_SECRET'') \<longrightarrow>
      main b cfg =
        (Inl (ValueError slack_secrets_message), [Log (LogFatal (ValueError slack_secrets_message))]))
   \<and> (unset (getenv b ''JIRA_EMAIL'') \<or> unset (getenv b ''JIRA_API_TOKEN'') \<longrightarrow>
      (\<exists>e. fst (main b cfg) = Inl e) \<and>
      set (filter opens_session (snd (main b cfg))) \<subseteq>
        {NewSlackApp (str_opt (getenv b ''SLACK_BOT_TOKEN'')) (str_opt (getenv b ''SLACK_SIGNING_SECRET''))} \<and>
      (slack_ready b \<longrightarrow> fst (main b cfg) = Inl (ValueError jira_secrets_message)))
   \<and> (unset (getenv b ''ANTHROPIC_API_KEY'') \<longrightarrow>
      (\<exists>e. fst (main b cfg) = Inl e) \<and>
      set (filter opens_session (snd (main b cfg))) \<subseteq>
        {NewSlackApp (str_opt (getenv b ''SLACK_BOT_TOKEN'')) (str_opt (getenv b ''SLACK_SIGNING_SECRET'')),
         NewJira (jira_url cfg) (str_opt (getenv b ''JIRA_EMAIL'')) (str_opt (getenv b ''JIRA_API_TOKEN''))} \<and>
      (slack_ready b \<and> jira_ready b cfg \<longrightarrow>
         fst (main b cfg) = Inl (ValueError anthropic_secret_message)))
   \<and> (unset (getenv b ''SLACK_APP_TOKEN'') \<longrightarrow>
      (\<exists>e. fst (main b cfg) = Inl e) \<and>
      set (filter opens_session (snd (main b cfg))) \<subseteq>
        {NewSlackApp (str_opt (getenv b ''SLACK_BOT_TOKEN'')) (str_opt (getenv b ''SLACK_SIGNING_SECRET'')),
         NewJira (jira_url cfg) (str_opt (getenv b ''JIRA_EMAIL'')) (str_opt (getenv b ''JIRA_API_TOKEN'')),
         NewAnthropic (str_opt (getenv b ''ANTHROPIC_API_KEY''))} \<and>
      (slack_ready b \<and> jira_ready b cfg \<and> anthropic_ready b \<longrightarrow>
         fst (main b cfg) = Inl (ValueError app_token_message)))"
proof (intro conjI impI)
  assume "unset (getenv b ''SLACK_BOT_TOKEN'') \<or> unset (getenv b ''SLACK_SIGNING_SECRET'')"
  then show "main b cfg =
        (Inl (ValueError slack_secrets_message), [Log (LogFatal (ValueError slack_secrets_message))])"
    by (simp add: main_outcome)
next
  assume a: "unset (getenv b ''JIRA_EMAIL'') \<or> unset (getenv b ''JIRA_API_TOKEN'')"
  then show "\<exists>e. fst (main b cfg) = Inl e"
    by (simp add: main_outcome Let_def split: sum.splits)
  from a show "set (filter opens_session (snd (main b cfg))) \<subseteq>
        {NewSlackApp (str_opt (getenv b ''SLACK_BOT_TOKEN'')) (str_opt (getenv b ''SLACK_SIGNING_SECRET''))}"
    by (auto simp: main_outcome Let_def split: sum.splits)
  assume "slack_ready b"
  with a show "fst (main b cfg) = Inl (ValueError jira_secrets_message)"
    by (simp add: main_outcome Let_def slack_ready_def)
next
  assume a: "unset (getenv b ''ANTHROPIC_API_KEY'')"
  then show "\<exists>e. fst (main b cfg) = Inl e"
    by (simp add: main_outcome Let_def split: sum.splits)
  from a show "set (filter opens_session (snd (main b cfg))) \<subseteq>
        {NewSlackApp (str_opt (getenv b ''SLACK_BOT_TOKEN'')) (str_opt (getenv b ''SLACK_SIGNING_SECRET'')),
         NewJira (jira_url cfg) (str_opt (getenv b ''JIRA_EMAIL'')) (str_opt (getenv b ''JIRA_API_TOKEN''))}"
    by (auto simp: main_outcome Let_def split: sum.splits)
  assume "slack_ready b \<and> jira_ready b cfg"
  with a show "fst (main b cfg) = Inl (ValueError anthropic_secret_message)"
    by (simp add: main_outcome Let_def slack_ready_def jira_ready_def)
next
  assume a: "unset (getenv b ''SLACK_APP_TOKEN'')"
  then show "\<exists>e. fst (main b cfg) = Inl e"
    by (simp add: main_outcome Let_def split: sum.splits)
  from a show "set (filter opens_session (snd (main b cfg))) \<subseteq>
        {NewSlackApp (str_opt (getenv b ''SLACK_BOT_TOKEN'')) (str_opt (getenv b ''SLACK_SIGNING_SECRET'')),
         NewJira (jira_url cfg) (str_opt (getenv b ''JIRA_EMAIL'')) (str_opt (getenv b ''JIRA_API_TOKEN'')),
         NewAnthropic (str_opt (getenv b ''ANTHROPIC_API_KEY''))}"
    by (auto simp: main_outcome Let_def split: sum.splits)
  assume "slack_ready b \<and> jira_ready b cfg \<and> anthropic_ready b"
  with a show "fst (main b cfg) = Inl (ValueError app_token_message)"
    by (simp add: main_outcome Let_def slack_ready_def jira_ready_def anthropic_ready_def)
qed

text \<open>One environment for each of the four checks; every constructor succeeds.\<close>

theorem missing_secret_stops_startup_witness:
  "unset (getenv (demo_boot (demo_env(''SLACK_BOT_TOKEN'' := None))) ''SLACK_BOT_TOKEN'')
   \<and> main (demo_boot (demo_env(''SLACK_BOT_TOKEN'' := None))) demo_cfg =
       (Inl (ValueError slack_secrets_message), [Log (LogFatal (ValueError slack_secrets_message))])
   \<and> unset (getenv (demo_boot (demo_env(''JIRA_API_TOKEN'' := Some []))) ''JIRA_API_TOKEN'')
   \<and> slack_ready (demo_boot (demo_env(''JIRA_API_TOKEN'' := Some [])))
   \<and> fst (main (demo_boot (demo_env(''JIRA_API_TOKEN'' := Some []))) demo_cfg) =
       Inl (ValueError jira_secrets_message)
   \<and> set (filter opens_session (snd (main (demo_boot (demo_env(''JIRA_API_TOKEN'' := Some []))) demo_cfg)))
       \<subseteq> {NewSlackApp ''xoxb-1'' ''s3cret''}
   \<and> unset (getenv (demo_boot (demo_env(''ANTHROPIC_API_KEY'' := None))) ''ANTHROPIC_API_KEY'')
   \<and> fst (main (demo_boot (demo_env(''ANTHROPIC_API_KEY'' := None))) demo_cfg) =
       Inl (ValueError anthropic_secret_message)
   \<and> set (filter opens_session (snd (main (demo_boot (demo_env(''ANTHROPIC_API_KEY'' := None))) demo_cfg)))
       \<subseteq> {NewSlackApp ''xoxb-1'' ''s3cret'',
           NewJira ''https://example.atlassian.net'' ''bot@example.com'' ''jira-1''}
   \<and> unset (getenv (demo_boot (demo_env(''SLACK_APP_TOKEN'' := None))) ''SLACK_APP_TOKEN'')
   \<and> fst (main (demo_boot (demo_env(''SLACK_APP_TOKEN'' := None))) demo_cfg) =
       Inl (ValueError app_token_message)
   \<and> set (filter opens_session (snd (main (demo_boot (demo_env(''SLACK_APP_TOKEN'' := None))) demo_cfg)))
       \<subseteq> {NewSlackApp ''xoxb-1'' ''s3cret'',
           NewJira ''https://example.atlassian.net'' ''bot@example.com'' ''jira-1'',
           NewAnthropic ''key-1''}"
proof -
  let ?b1 = "demo_boot (demo_env(''SLACK_BOT_TOKEN'' := None))"
  let ?b2 = "demo_boot (demo_env(''JIRA_API_TOKEN'' := Some []))"
  let ?b3 = "demo_boot (demo_env(''ANTHROPIC_API_KEY'' := None))"
  let ?b4 = "demo_boot (demo_env(''SLACK_APP_TOKEN'' := None))"
  have u1: "unset (getenv ?b1 ''SLACK_BOT_TOKEN'')"
    and u2: "unset (getenv ?b2 ''JIRA_API_TOKEN'')"
    and u3: "unset (getenv ?b3 ''ANTHROPIC_API_KEY'')"
    and u4: "unset (getenv ?b4 ''SLACK_APP_TOKEN'')"
    by (simp_all add: demo_boot_def unset_def)
  have r2: "slack_ready ?b2"
    by (simp add: slack_ready_def demo_boot_def unset_def demo_env_values)
  have r3: "slack_ready ?b3 \<and> jira_ready ?b3 demo_cfg"
    by (simp add: slack_ready_def jira_ready_def demo_boot_def unset_def demo_env_values)
  have r4: "slack_ready ?b4 \<and> jira_ready ?b4 demo_cfg \<and> anthropic_ready ?b4"
    by (simp add: slack_ready_def jira_ready_def anthropic_ready_def demo_boot_def unset_def
          demo_env_values)
  have e2: "str_opt (getenv ?b2 ''SLACK_BOT_TOKEN'') = ''xoxb-1''"
           "str_opt (getenv ?b2 ''SLACK_SIGNING_SECRET'') = ''s3cret''"
    by (simp_all add: demo_boot_def demo_env_values str_opt_def)
  have e3: "str_opt (getenv ?b3 ''SLACK_BOT_TOKEN'') = ''xoxb-1''"
           "str_opt (getenv ?b3 ''SLACK_SIGNING_SECRET'') = ''s3cret''"
           "str_opt (getenv ?b3 ''JIRA_EMAIL'') = ''bot@example.com''"
           "str_opt (getenv ?b3 ''JIRA_API_TOKEN'') = ''jira-1''"
    by (simp_all add: demo_boot_def demo_env_values str_opt_def)
  have e4: "str_opt (getenv ?b4 ''SLACK_BOT_TOKEN'') = ''xoxb-1''"
           "str_opt (getenv ?b4 ''SLACK_SIGNING_SECRET'') = ''s3cret''"
           "str_opt (getenv ?b4 ''JIRA_EMAIL'') = ''bot@example.com''"
           "str_opt (getenv ?b4 ''JIRA_API_TOKEN'') = ''jira-1''"
           "str_opt (getenv ?b4 ''ANTHROPIC_API_KEY'') = ''key-1''"
    by (simp_all add: demo_boot_def demo_env_values str_opt_def)
  have j: "jira_url demo_cfg = ''https://example.atlassian.net''"
    by (simp add: demo_cfg_def)
  note t1 = missing_secret_stops_startup [of ?b1 demo_cfg]
  note t2 = missing_secret_stops_startup [of ?b2 demo_cfg, unfolded e2]
  note t3 = missing_secret_stops_startup [of ?b3 demo_cfg, unfolded e3 j]
  note t4 = missing_secret_stops_startup [of ?b4 demo_cfg, unfolded e4 j]
  from t1 u1 have 1: "main ?b1 demo_cfg =
       (Inl (ValueError slack_secrets_message), [Log (LogFatal (ValueError slack_secrets_message))])"
    by blast
  from t2 u2 r2 have 2: "fst (main ?b2 demo_cfg) = Inl (ValueError jira_secrets_message)"
      "set (filter opens_session (snd (main ?b2 demo_cfg))) \<subseteq> {NewSlackApp ''xoxb-1'' ''s3cret''}"
    by blast+
  from t3 u3 r3 have 3: "fst (main ?b3 demo_cfg) = Inl (ValueError anthropic_secret_message)"
      "set (filter opens_session (snd (main ?b3 demo_cfg)))
       \<subseteq> {NewSlackApp ''xoxb-1'' ''s3cret'',
           NewJira ''https://example.atlassian.net'' ''bot@example.com'' ''jira-1''}"
    by blast+
  from t4 u4 r4 have 4: "fst (main ?b4 demo_cfg) = Inl (ValueError app_token_message)"
      "set (filter opens_session (snd (main ?b4 demo_cfg)))
       \<subseteq> {NewSlackApp ''xoxb-1'' ''s3cret'',
           NewJira ''https://example.atlassian.net'' ''bot@example.com'' ''jira-1'',
           NewAnthropic ''key-1''}"
    by blast+
  from u1 u2 u3 u4 r2 1 2 3 4 show ?thesis
    by (intro conjI)
qed

subsection \<open>C5: failures of the classification are absorbed\<close>

text \<open>The cleaning of the answer never raises: a text that starts with a fence splits into at least two pieces.\<close>

lemma split_from_nonempty: "split_from sep acc s \<noteq> []"
  by (induction sep acc s rule: split_from.induct) auto

lemma split_from_leading_fence:
  assumes "startswith s fence"
  shows "\<exists>p ps. split_from fence [] s = [] # p # ps"
proof -
  from assms obtain c cs where s: "s = c # cs"
    by (cases s) (auto simp: startswith_def fence_def)
  from assms have "take (length fence) s = fence"
    by (simp add: startswith_def)
  moreover have "fence \<noteq> []"
    by (simp add: fence_def)
  ultimately have "split_from fence [] s = [] # split_from fence [] (drop (length fence) s)"
    by (simp add: s)
  moreover obtain p ps where "split_from fence [] (drop (length fence) s) = p # ps"
    using split_from_nonempty [of fence "[]" "drop (length fence) s"] by (cases "split_from fence [] (drop (length fence) s)") auto
  ultimately show ?thesis by simp
qed

lemma clean_response_total: "\<exists>s. clean_response t = Inr s"
proof (cases "startswith (py_strip t) fence")
  case True
  from split_from_leading_fence [OF this] obtain p ps
    where "split_from fence [] (py_strip t) = [] # p # ps" by blast
  with True show ?thesis
    by (simp add: clean_response_def py_split_def list_index_def fence_def)
next
  case False
  then show ?thesis by (simp add: clean_response_def)
qed

text \<open>
  C5. \<^verbatim>\<open>_analyze_message\<close> never raises. When the call to the model raises (a transport
  error), and when the cleaned text of the answer is rejected by the JSON decoder, it
  returns \<^verbatim>\<open>(False, None)\<close> and its last act is the error log record of that exception.
\<close>

theorem analysis_failures_absorbed:
  "(\<exists>r. fst (analyze_message x cfg m) = Inr r)
   \<and> (messages_create x (ai_model cfg) 1024 (build_prompt cfg m) = Inl e \<longrightarrow>
      analyze_message x cfg m =
        (Inr (False, None),
         [MessagesCreate (ai_model cfg) 1024 (build_prompt cfg m), Log (LogAnalysisError e)]))
   \<and> (messages_create x (ai_model cfg) 1024 (build_prompt cfg m) = Inr (t # ts) \<and>
      clean_response t = Inr s \<and> json_loads x s = Inl e \<longrightarrow>
      analyze_message x cfg m =
        (Inr (False, None),
         [MessagesCreate (ai_model cfg) 1024 (build_prompt cfg m), Log (LogAnalysisError e)]))"
proof -
  have "\<exists>r. fst (analyze_message x cfg m) = Inr r"
    using analyze_message_shape [of x cfg m] by auto
  then show ?thesis
    by (simp add: analyze_message_def prog_simps list_index_def)
qed

text \<open>A model that is overloaded, and a model that answers in prose.\<close>

theorem analysis_failures_absorbed_witness:
  "analyze_message ((demo_ext bug_json)\<lparr>messages_create := (\<lambda>_ _ _. Inl (ServiceError ''overloaded''))\<rparr>)
     demo_cfg ''export is broken'' =
     (Inr (False, None),
      [MessagesCreate ''model-1'' 1024 (build_prompt demo_cfg ''export is broken''),
       Log (LogAnalysisError (ServiceError ''overloaded''))])
   \<and> clean_response ''Sorry, I cannot classify this.'' = Inr ''Sorry, I cannot classify this.''
   \<and> json_loads (demo_ext ''Sorry, I cannot classify this.'') ''Sorry, I cannot classify this.'' =
       Inl JSONDecodeError
   \<and> analyze_message (demo_ext ''Sorry, I cannot classify this.'') demo_cfg ''export is broken'' =
     (Inr (False, None),
      [MessagesCreate ''model-1'' 1024 (build_prompt demo_cfg ''export is broken''),
       Log (LogAnalysisError JSONDecodeError)])"
proof -
  let ?down = "(demo_ext bug_json)\<lparr>messages_create := (\<lambda>_ _ _. Inl (ServiceError ''overloaded''))\<rparr>"
  let ?chat = "demo_ext ''Sorry, I cannot classify this.''"
  have c: "clean_response ''Sorry, I cannot classify this.'' = Inr ''Sorry, I cannot classify this.''"
    by (simp add: text_defs)
  have l: "json_loads ?chat ''Sorry, I cannot classify this.'' = Inl JSONDecodeError"
    by (simp add: demo_ext_def demo_loads_def loads_table_def bug_json_def quiet_json_def
          bare_json_def snippet_json_def)
  have m: "messages_create ?chat (ai_model demo_cfg) 1024 (build_prompt demo_cfg ''export is broken'') =
             Inr (''Sorry, I cannot classify this.'' # [])"
    by (simp add: demo_ext_def)
  have d: "messages_create ?down (ai_model demo_cfg) 1024 (build_prompt demo_cfg ''export is broken'') =
             Inl (ServiceError ''overloaded'')"
    by simp
  from analysis_failures_absorbed [of ?down demo_cfg "''export is broken''" "ServiceError ''overloaded''"] d
  have 1: "analyze_message ?down demo_cfg ''export is broken'' =
     (Inr (False, None),
      [MessagesCreate (ai_model demo_cfg) 1024 (build_prompt demo_cfg ''export is broken''),
       Log (LogAnalysisError (ServiceError ''overloaded''))])"
    by blast
  from analysis_failures_absorbed [of ?chat demo_cfg "''export is broken''" JSONDecodeError
         "''Sorry, I cannot classify this.''" "[]" "''Sorry, I cannot classify this.''"] c l m
  have 2: "analyze_message ?chat demo_cfg ''export is broken'' =
     (Inr (False, None),
      [MessagesCreate (ai_model demo_cfg) 1024 (build_prompt demo_cfg ''export is broken''),
       Log (LogAnalysisError JSONDecodeError)])"
    by blast
  from 1 2 c l show ?thesis
    by (simp add: demo_cfg_def)
qed

subsection \<open>C6: answers in code fences\<close>

lemma backtick_not_space: "\<not> isspace (CHR 0x60)"
  by (simp add: isspace_def)

lemma fence_not_Nil: "fence \<noteq> []"
  by (simp add: fence_def)

lemma startswith_iff: "startswith s p \<longleftrightarrow> (\<exists>r. s = p @ r)"
proof
  assume "startswith s p"
  then have "s = p @ drop (length p) s"
    by (metis append_take_drop_id startswith_def)
  then show "\<exists>r. s = p @ r" ..
next
  assume "\<exists>r. s = p @ r"
  then show "startswith s p"
    by (auto simp: startswith_def)
qed

lemma startswith_append: "length p \<le> length a \<Longrightarrow> startswith (a @ b) p \<longleftrightarrow> startswith a p"
  by (simp add: startswith_def)

lemma split_from_hit:
  assumes "sep \<noteq> []"
  shows "split_from sep acc (sep @ r) = rev acc # split_from sep [] r"
proof -
  from assms obtain c cs where c: "sep @ r = c # cs"
    by (cases sep) auto
  have "split_from sep acc (c # cs) =
      (if sep \<noteq> [] \<and> take (length sep) (c # cs) = sep
       then rev acc # split_from sep [] (drop (length sep) (c # cs))
       else split_from sep (c # acc) cs)"
    by (rule split_from.simps)
  then show ?thesis
    unfolding c [symmetric] using assms by simp
qed

lemma split_from_miss:
  "\<not> startswith (c # cs) sep \<Longrightarrow> split_from sep acc (c # cs) = split_from sep (c # acc) cs"
  by (simp add: startswith_def)


lemma py_strip_wrapped:
  assumes "\<forall>c \<in> set ws. isspace c"
  shows "py_strip (ws @ fence @ z @ fence @ rest) =
           fence @ z @ fence @ rev (dropWhile isspace (rev rest))"
proof -
  have l: "dropWhile isspace (ws @ fence @ z @ fence @ rest) = fence @ z @ fence @ rest"
    using assms by (simp add: fence_def backtick_not_space)
  have "rev (fence @ z @ fence @ rest) = rev rest @ CHR 0x60 # (CHR 0x60 # CHR 0x60 # rev z @ rev fence)"
    by (simp add: fence_def)
  then have "dropWhile isspace (rev (fence @ z @ fence @ rest)) =
      dropWhile isspace (rev rest) @ CHR 0x60 # (CHR 0x60 # CHR 0x60 # rev z @ rev fence)"
    by (simp only: dropWhile_append3 [where P = isspace and y = "CHR 0x60", OF backtick_not_space])
  then have "rev (dropWhile isspace (rev (fence @ z @ fence @ rest))) =
      fence @ z @ fence @ rev (dropWhile isspace (rev rest))"
    by (simp add: fence_def)
  with l show ?thesis
    by (simp add: py_strip_def)
qed

text \<open>No fence begins inside \<open>u\<close> when a fence follows \<open>u\<close>.\<close>

lemma split_from_first_fence:
  assumes "\<not> has_fence (u @ [CHR 0x60, CHR 0x60])"
  shows "split_from fence acc (u @ fence @ r) = (rev acc @ u) # split_from fence [] r"
  using assms
proof (induction u arbitrary: acc)
  case Nil
  show ?case
    using split_from_hit [OF fence_not_Nil, of acc r] by simp
next
  case (Cons c u)
  from Cons.prems have n: "\<not> startswith (c # u @ [CHR 0x60, CHR 0x60]) fence"
    and h: "\<not> has_fence (u @ [CHR 0x60, CHR 0x60])"
    by simp_all
  have "fence @ r = [CHR 0x60, CHR 0x60] @ (CHR 0x60 # r)"
    by (simp add: fence_def)
  then have "c # u @ fence @ r = (c # u @ [CHR 0x60, CHR 0x60]) @ (CHR 0x60 # r)"
    by simp
  moreover have "length fence \<le> length (c # u @ [CHR 0x60, CHR 0x60])"
    by (simp add: fence_def)
  ultimately have "startswith (c # u @ fence @ r) fence \<longleftrightarrow> startswith (c # u @ [CHR 0x60, CHR 0x60]) fence"
    by (simp only: startswith_append)
  with n have "\<not> startswith (c # u @ fence @ r) fence"
    by simp
  then have "split_from fence acc (c # u @ fence @ r) = split_from fence (c # acc) (u @ fence @ r)"
    by (rule split_from_miss)
  with Cons.IH [OF h, of "c # acc"] show ?case by simp
qed

lemma has_fence_suffix: "has_fence b \<Longrightarrow> has_fence (a @ b)"
  by (induction a) simp_all

lemma has_fence_prefix: "has_fence a \<Longrightarrow> has_fence (a @ b)"
proof (induction a)
  case Nil
  then show ?case by simp
next
  case (Cons c a)
  show ?case
  proof (cases "startswith (c # a) fence")
    case True
    then obtain r where "c # a = fence @ r"
      by (auto simp: startswith_iff)
    then have "(c # a) @ b = fence @ (r @ b)"
      by simp
    then have "startswith ((c # a) @ b) fence"
      by (simp only: startswith_iff) blast
    then show ?thesis by simp
  next
    case False
    with Cons show ?thesis by simp
  qed
qed

lemma startswith_has_fence: "startswith s fence \<Longrightarrow> has_fence s"
proof (cases s)
  case Nil
  assume "startswith s fence"
  with Nil show ?thesis by (simp add: startswith_def fence_def)
next
  case (Cons c cs)
  assume "startswith s fence"
  with Cons show ?thesis by simp
qed

lemma py_strip_infix: "\<exists>a b. s = a @ py_strip s @ b"
proof -
  define y where "y = dropWhile isspace s"
  have "rev (dropWhile isspace (rev y)) @ rev (takeWhile isspace (rev y)) =
        rev (takeWhile isspace (rev y) @ dropWhile isspace (rev y))"
    by (simp only: rev_append)
  also have "\<dots> = rev (rev y)"
    by (simp only: takeWhile_dropWhile_id)
  also have "\<dots> = y" by simp
  finally have "y = py_strip s @ rev (takeWhile isspace (rev y))"
    by (simp add: py_strip_def y_def)
  moreover have "s = takeWhile isspace s @ y"
    by (simp add: y_def)
  ultimately have "s = takeWhile isspace s @ py_strip s @ rev (takeWhile isspace (rev y))"
    by simp
  then show ?thesis by blast
qed

lemma no_fence_strip:
  assumes "\<not> has_fence s"
  shows "\<not> startswith (py_strip s) fence"
proof
  assume "startswith (py_strip s) fence"
  then have f: "has_fence (py_strip s)"
    by (rule startswith_has_fence)
  obtain a b where s: "s = a @ py_strip s @ b"
    using py_strip_infix by blast
  from f have "has_fence (py_strip s @ b)"
    by (rule has_fence_prefix)
  then have "has_fence (a @ py_strip s @ b)"
    by (rule has_fence_suffix)
  with s assms show False by simp
qed

lemma no_fence_before_closing:
  assumes "\<not> has_fence u" and "u = [] \<or> last u \<noteq> CHR 0x60"
  shows "\<not> has_fence (u @ [CHR 0x60, CHR 0x60])"
  using assms
proof (induction u)
  case Nil
  then show ?case by (simp add: startswith_def fence_def)
next
  case (Cons c u)
  from Cons.prems(1) have nu: "\<not> has_fence u" and t: "\<not> startswith (c # u) fence"
    by simp_all
  from Cons.prems(2) have lu: "u = [] \<or> last u \<noteq> CHR 0x60"
    by (cases u) simp_all
  have "\<not> startswith (c # u @ [CHR 0x60, CHR 0x60]) fence"
  proof (cases u)
    case Nil
    with Cons.prems(2) show ?thesis by (simp add: startswith_def fence_def)
  next
    case u: (Cons a v)
    show ?thesis
    proof (cases v)
      case Nil
      with u Cons.prems(2) show ?thesis by (simp add: startswith_def fence_def)
    next
      case (Cons b w)
      with u have "length fence \<le> length (c # u)"
        by (simp add: fence_def)
      then have "startswith ((c # u) @ [CHR 0x60, CHR 0x60]) fence \<longleftrightarrow> startswith (c # u) fence"
        by (rule startswith_append)
      with t show ?thesis by simp
    qed
  qed
  with Cons.IH [OF nu lu] show ?case by simp
qed

lemma clean_response_plain:
  assumes "\<not> has_fence body"
  shows "clean_response body = Inr (py_strip body)"
  using no_fence_strip [OF assms] by (simp add: clean_response_def)

lemma json_tag_no_fence:
  "has_fence (''json'' @ u) \<longleftrightarrow> has_fence u"
  by (simp add: startswith_def fence_def)

lemma clean_response_wrapped:
  assumes ws: "\<forall>c \<in> set ws. isspace c"
    and tag: "tag = [] \<and> \<not> startswith body ''json'' \<or> tag = ''json''"
    and nf: "\<not> has_fence body"
    and lc: "body = [] \<or> last body \<noteq> CHR 0x60"
  shows "clean_response (ws @ fence @ tag @ body @ fence @ rest) = Inr (py_strip body)"
proof -
  define rest' where "rest' = rev (dropWhile isspace (rev rest))"
  have s: "py_strip (ws @ fence @ tag @ body @ fence @ rest) = fence @ tag @ body @ fence @ rest'"
    using py_strip_wrapped [OF ws, of "tag @ body" rest] by (simp add: rest'_def)
  have sw: "startswith (fence @ tag @ body @ fence @ rest') fence"
    by (simp only: startswith_iff) blast
  have "\<not> has_fence (body @ [CHR 0x60, CHR 0x60])"
    using nf lc by (rule no_fence_before_closing)
  then have "\<not> has_fence ((tag @ body) @ [CHR 0x60, CHR 0x60])"
  proof (cases "tag = ''json''")
    case True
    assume n: "\<not> has_fence (body @ [CHR 0x60, CHR 0x60])"
    have e: "(tag @ body) @ [CHR 0x60, CHR 0x60] = ''json'' @ (body @ [CHR 0x60, CHR 0x60])"
      using True by simp
    show ?thesis
      unfolding e json_tag_no_fence by (rule n)
  next
    case False
    assume n: "\<not> has_fence (body @ [CHR 0x60, CHR 0x60])"
    from False tag have "tag = []" by simp
    with n show ?thesis by simp
  qed
  then have "split_from fence [] ((tag @ body) @ fence @ rest') =
      (tag @ body) # split_from fence [] rest'"
    using split_from_first_fence [of "tag @ body" "[]" rest'] by simp
  then have sp: "split_from fence [] (fence @ tag @ body @ fence @ rest') =
      [] # (tag @ body) # split_from fence [] rest'"
    using split_from_hit [OF fence_not_Nil, of "[]" "(tag @ body) @ fence @ rest'"] by simp
  have piece: "(if startswith (tag @ body) ''json'' then drop 4 (tag @ body) else tag @ body) = body"
  proof (cases "tag = ''json''")
    case True
    then have "startswith (tag @ body) ''json''"
      by (simp add: startswith_def)
    with True show ?thesis by simp
  next
    case False
    with tag show ?thesis by simp
  qed
  show ?thesis
    unfolding clean_response_def s Let_def
    using sw by (simp add: py_split_def fence_not_Nil sp list_index_def piece)
qed

lemma analyze_message_same_text:
  assumes "clean_response t = clean_response t'"
  shows "analyze_message (x\<lparr>messages_create := (\<lambda>_ _ _. Inr (t # others))\<rparr>) cfg m =
         analyze_message (x\<lparr>messages_create := (\<lambda>_ _ _. Inr (t' # others))\<rparr>) cfg m"
  using assms by (simp add: analyze_message_def prog_simps list_index_def)

lemma analyze_message_rejected:
  assumes "messages_create x (ai_model cfg) 1024 (build_prompt cfg m) = Inr (t # ts)"
    and "clean_response t = Inr s" and "json_loads x s = Inl e"
  shows "analyze_message x cfg m =
           (Inr (False, None),
            [MessagesCreate (ai_model cfg) 1024 (build_prompt cfg m), Log (LogAnalysisError e)])"
  using assms by (simp add: analyze_message_def prog_simps list_index_def)

lemma clean_snippet_json: "clean_response snippet_json = Inr snippet_json"
  by (simp add: snippet_json_def text_defs)

lemma demo_loads_snippet: "demo_loads snippet_json = Inr (PDict snippet_verdict)"
  by (simp add: demo_loads_def loads_table_def bug_json_def quiet_json_def bare_json_def
        snippet_json_def)

text \<open>
  C6, as stated, fails in two ways. Only the language tag \<^verbatim>\<open>json\<close> is removed: with any
  other tag the tag stays in front of the payload, and the text is not JSON. And the
  text is split at every fence, of which the second piece is taken: a payload that
  itself contains a fence (a code snippet quoted in the description) is cut there. In
  both examples the bare payload gives a positive verdict and the fenced one gives
  \<^verbatim>\<open>(False, None)\<close>.
\<close>

theorem fenced_response_counterexample:
  "fst (analyze_message (demo_ext (fence @ ''javascript'' @ nl @ bug_json @ nl @ fence))
          demo_cfg ''export is broken'') = Inr (False, None)
   \<and> fst (analyze_message (demo_ext bug_json) demo_cfg ''export is broken'') =
       Inr (True, Some (ticket_info_of demo_cfg bug_verdict))
   \<and> fst (analyze_message (demo_ext (fence @ ''json'' @ nl @ snippet_json @ nl @ fence))
          demo_cfg ''export is broken'') = Inr (False, None)
   \<and> fst (analyze_message (demo_ext snippet_json) demo_cfg ''export is broken'') =
       Inr (True, Some (ticket_info_of demo_cfg snippet_verdict))"
proof -
  let ?tagged = "fence @ ''javascript'' @ nl @ bug_json @ nl @ fence"
  let ?fenced = "fence @ ''json'' @ nl @ snippet_json @ nl @ fence"
  have 1: "analyze_message (demo_ext ?tagged) demo_cfg ''export is broken'' =
      (Inr (False, None),
       [MessagesCreate (ai_model demo_cfg) 1024 (build_prompt demo_cfg ''export is broken''),
        Log (LogAnalysisError JSONDecodeError)])"
  proof (rule analyze_message_rejected)
    show "messages_create (demo_ext ?tagged) (ai_model demo_cfg) 1024
            (build_prompt demo_cfg ''export is broken'') = Inr (?tagged # [])"
      by (simp add: demo_ext_def)
    show "clean_response ?tagged = Inr (''javascript'' @ nl @ bug_json)"
      by (simp add: bug_json_def text_defs)
    show "json_loads (demo_ext ?tagged) (''javascript'' @ nl @ bug_json) = Inl JSONDecodeError"
      by (simp add: demo_ext_def demo_loads_def loads_table_def bug_json_def quiet_json_def
            bare_json_def snippet_json_def)
  qed
  have 2: "analyze_message (demo_ext bug_json) demo_cfg ''export is broken'' =
      (Inr (True, Some (ticket_info_of demo_cfg bug_verdict)),
       [MessagesCreate (ai_model demo_cfg) 1024 (build_prompt demo_cfg ''export is broken''),
        Log (LogAnalysis (PBool True) (dict_get bug_verdict ''confidence'' PNone)
               (dict_get bug_verdict ''reasoning'' PNone))])"
    by (rule analyze_message_positive [where t = bug_json and ts = "[]" and s = bug_json])
       (simp_all add: demo_ext_def clean_bug_json demo_loads_bug,
        simp_all add: bug_verdict_def dict_get_def py_ge_def demo_cfg_def)
  have 3: "analyze_message (demo_ext ?fenced) demo_cfg ''export is broken'' =
      (Inr (False, None),
       [MessagesCreate (ai_model demo_cfg) 1024 (build_prompt demo_cfg ''export is broken''),
        Log (LogAnalysisError JSONDecodeError)])"
  proof (rule analyze_message_rejected)
    show "messages_create (demo_ext ?fenced) (ai_model demo_cfg) 1024
            (build_prompt demo_cfg ''export is broken'') = Inr (?fenced # [])"
      by (simp add: demo_ext_def)
    show "clean_response ?fenced = Inr snippet_cut"
      by (simp add: snippet_json_def snippet_cut_def text_defs)
    show "json_loads (demo_ext ?fenced) snippet_cut = Inl JSONDecodeError"
      by (simp add: demo_ext_def demo_loads_def loads_table_def bug_json_def quiet_json_def
            bare_json_def snippet_json_def snippet_cut_def)
  qed
  have 4: "analyze_message (demo_ext snippet_json) demo_cfg ''export is broken'' =
      (Inr (True, Some (ticket_info_of demo_cfg snippet_verdict)),
       [MessagesCreate (ai_model demo_cfg) 1024 (build_prompt demo_cfg ''export is broken''),
        Log (LogAnalysis (PBool True) (dict_get snippet_verdict ''confidence'' PNone)
               (dict_get snippet_verdict ''reasoning'' PNone))])"
    by (rule analyze_message_positive [where t = snippet_json and ts = "[]" and s = snippet_json])
       (simp_all add: demo_ext_def clean_snippet_json demo_loads_snippet,
        simp_all add: snippet_verdict_def dict_get_def py_ge_def demo_cfg_def)
  from 1 2 3 4 show ?thesis by simp
qed

text \<open>
  C6, amended. For every answer that consists of optional leading whitespace, a fence,
  no language tag or the tag \<^verbatim>\<open>json\<close>, a payload and a closing fence (and anything after
  it), where the payload contains no fence and does not end in a backtick (and, without
  a tag, does not itself begin with \<^verbatim>\<open>json\<close>), the text given to the JSON decoder is the
  same as for the bare payload, and so is the whole outcome of \<^verbatim>\<open>_analyze_message\<close>.
\<close>

theorem fenced_response_parses_alike:
  assumes "\<forall>c \<in> set ws. isspace c"
    and "tag = [] \<and> \<not> startswith body ''json'' \<or> tag = ''json''"
    and "\<not> has_fence body"
    and "body = [] \<or> last body \<noteq> CHR 0x60"
  shows "clean_response (ws @ fence @ tag @ body @ fence @ rest) = clean_response body
       \<and> analyze_message
           (x\<lparr>messages_create := (\<lambda>_ _ _. Inr ((ws @ fence @ tag @ body @ fence @ rest) # others))\<rparr>)
           cfg m =
         analyze_message (x\<lparr>messages_create := (\<lambda>_ _ _. Inr (body # others))\<rparr>) cfg m"
proof -
  have c: "clean_response (ws @ fence @ tag @ body @ fence @ rest) = clean_response body"
    using clean_response_wrapped [OF assms, of rest] clean_response_plain [OF assms(3)] by simp
  from analyze_message_same_text [OF c] c show ?thesis by simp
qed

text \<open>The answer of the scenario, fenced with the tag and fenced without it.\<close>

theorem fenced_response_parses_alike_witness:
  "clean_response ('' '' @ fence @ ''json'' @ (nl @ bug_json @ nl) @ fence @ nl) =
     clean_response (nl @ bug_json @ nl)
   \<and> clean_response (fence @ (nl @ bug_json @ nl) @ fence) = clean_response (nl @ bug_json @ nl)
   \<and> clean_response (nl @ bug_json @ nl) = Inr bug_json
   \<and> analyze_message
       ((demo_ext [])\<lparr>messages_create :=
          (\<lambda>_ _ _. Inr (('' '' @ fence @ ''json'' @ (nl @ bug_json @ nl) @ fence @ nl) # []))\<rparr>)
       demo_cfg ''export is broken'' =
     analyze_message
       ((demo_ext [])\<lparr>messages_create := (\<lambda>_ _ _. Inr ((nl @ bug_json @ nl) # []))\<rparr>)
       demo_cfg ''export is broken''"
proof -
  let ?body = "nl @ bug_json @ nl"
  have w: "\<forall>c \<in> set '' ''. isspace c" "\<forall>c \<in> set []. isspace c"
    by (simp_all add: isspace_def)
  have t: "''json'' = [] \<and> \<not> startswith ?body ''json'' \<or> ''json'' = ''json''"
          "[] = [] \<and> \<not> startswith ?body ''json'' \<or> [] = ''json''"
    by (simp_all add: startswith_def)
  have n: "\<not> has_fence ?body"
    by (simp add: bug_json_def startswith_def fence_def)
  have l: "?body = [] \<or> last ?body \<noteq> CHR 0x60"
    by simp
  have v: "clean_response ?body = Inr bug_json"
    by (simp add: bug_json_def text_defs)
  from fenced_response_parses_alike [OF w(1) t(1) n l,
         where rest = nl and x = "demo_ext []" and others = "[]" and cfg = demo_cfg
           and m = "''export is broken''"]
       fenced_response_parses_alike [OF w(2) t(2) n l,
         where rest = "[]" and x = "demo_ext []" and others = "[]" and cfg = demo_cfg
           and m = "''export is broken''"]
       v
  show ?thesis by simp
qed


subsection \<open>C7: the status transition\<close>

text \<open>What \<^verbatim>\<open>sep.join\<close> returns: the first string, then each further string after a separator.\<close>

lemma py_join_explicit:
  "py_join sep xs = (case xs of [] \<Rightarrow> [] | y # ys \<Rightarrow> y @ concat (map (\<lambda>z. sep @ z) ys))"
  by (induction sep xs rule: py_join.induct) simp_all

text \<open>
  C7. \<^verbatim>\<open>_set_issue_status\<close> begins by fetching the issue again and never raises. When the
  fetched status is the desired one it calls nothing else (no transition call). When no
  available transition leads to the desired status it makes no transition call either
  and logs a warning with the issue key, the desired and the current status, and the
  target names of all available transitions in their order: the first name, and each
  further name after a comma and a space.
\<close>

theorem set_issue_status_spec:
  "(\<exists>evs. snd (set_issue_status x i desired) = GetIssue (issue_key i) # evs)
   \<and> fst (set_issue_status x i desired) = Inr ()
   \<and> (get_issue x (issue_key i) = Inr cur \<and> issue_status cur = desired \<longrightarrow>
        set_issue_status x i desired =
          (Inr (), [GetIssue (issue_key i), Log (LogAlreadyInStatus (issue_key cur) desired)]))
   \<and> (get_issue x (issue_key i) = Inr cur \<and> issue_status cur \<noteq> desired \<and>
      get_transitions x cur = Inr trs \<and> (\<forall>t \<in> set trs. tr_to t \<noteq> desired) \<longrightarrow>
        set_issue_status x i desired =
          (Inr (), [GetIssue (issue_key i), GetTransitions cur,
                    Log (LogCannotTransition (issue_key cur) desired (issue_status cur)
                           (case trs of
                              [] \<Rightarrow> []
                            | t # rest \<Rightarrow> tr_to t @ concat (map (\<lambda>r. '', '' @ tr_to r) rest)))]))"
proof (intro conjI impI)
  show "\<exists>evs. snd (set_issue_status x i desired) = GetIssue (issue_key i) # evs"
    by (cases "get_issue x (issue_key i)") (simp_all add: set_issue_status_def prog_simps)
next
  show "fst (set_issue_status x i desired) = Inr ()"
    by (rule set_issue_status_total)
next
  assume "get_issue x (issue_key i) = Inr cur \<and> issue_status cur = desired"
  then show "set_issue_status x i desired =
          (Inr (), [GetIssue (issue_key i), Log (LogAlreadyInStatus (issue_key cur) desired)])"
    by (simp add: set_issue_status_def prog_simps)
next
  assume a: "get_issue x (issue_key i) = Inr cur \<and> issue_status cur \<noteq> desired \<and>
      get_transitions x cur = Inr trs \<and> (\<forall>t \<in> set trs. tr_to t \<noteq> desired)"
  then have f: "find (\<lambda>t. tr_to t = desired) trs = None"
    by (simp add: find_None_iff)
  have j: "py_join '', '' (map tr_to trs) =
      (case trs of [] \<Rightarrow> [] | t # rest \<Rightarrow> tr_to t @ concat (map (\<lambda>r. '', '' @ tr_to r) rest))"
    by (cases trs) (simp_all add: py_join_explicit comp_def)
  from a f show "set_issue_status x i desired =
          (Inr (), [GetIssue (issue_key i), GetTransitions cur,
                    Log (LogCannotTransition (issue_key cur) desired (issue_status cur)
                           (case trs of
                              [] \<Rightarrow> []
                            | t # rest \<Rightarrow> tr_to t @ concat (map (\<lambda>r. '', '' @ tr_to r) rest)))])"
    unfolding j [symmetric] by (simp add: set_issue_status_def prog_simps)
qed

text \<open>
  An issue already in To Do; an issue in Backlog that cannot go to Done, with two
  transitions on offer; and one that cannot go to Closed, with three.
\<close>

theorem set_issue_status_spec_witness:
  "set_issue_status
     ((demo_ext bug_json)\<lparr>get_issue := (\<lambda>k. Inr \<lparr>issue_key = k, issue_status = ''To Do''\<rparr>)\<rparr>)
     demo_issue ''To Do'' =
     (Inr (), [GetIssue ''PROJ-1'', Log (LogAlreadyInStatus ''PROJ-1'' ''To Do'')])
   \<and> set_issue_status (demo_ext bug_json) demo_issue ''Done'' =
     (Inr (), [GetIssue ''PROJ-1'',
               GetTransitions \<lparr>issue_key = ''PROJ-1'', issue_status = ''Backlog''\<rparr>,
               Log (LogCannotTransition ''PROJ-1'' ''Done'' ''Backlog'' ''To Do, In Progress'')])
   \<and> set_issue_status
       ((demo_ext bug_json)\<lparr>get_transitions :=
          (\<lambda>_. Inr [\<lparr>tr_id = ''11'', tr_to = ''To Do''\<rparr>, \<lparr>tr_id = ''21'', tr_to = ''In Progress''\<rparr>,
                    \<lparr>tr_id = ''31'', tr_to = ''Done''\<rparr>])\<rparr>)
       demo_issue ''Closed'' =
     (Inr (), [GetIssue ''PROJ-1'',
               GetTransitions \<lparr>issue_key = ''PROJ-1'', issue_status = ''Backlog''\<rparr>,
               Log (LogCannotTransition ''PROJ-1'' ''Closed'' ''Backlog''
                      ''To Do, In Progress, Done'')])"
proof -
  let ?todo = "(demo_ext bug_json)\<lparr>get_issue := (\<lambda>k. Inr \<lparr>issue_key = k, issue_status = ''To Do''\<rparr>)\<rparr>"
  let ?cur = "\<lparr>issue_key = ''PROJ-1'', issue_status = ''To Do''\<rparr>"
  let ?stale = "\<lparr>issue_key = ''PROJ-1'', issue_status = ''Backlog''\<rparr>"
  let ?trs = "[\<lparr>tr_id = ''11'', tr_to = ''To Do''\<rparr>, \<lparr>tr_id = ''21'', tr_to = ''In Progress''\<rparr>]"
  let ?trs3 = "[\<lparr>tr_id = ''11'', tr_to = ''To Do''\<rparr>, \<lparr>tr_id = ''21'', tr_to = ''In Progress''\<rparr>,
                \<lparr>tr_id = ''31'', tr_to = ''Done''\<rparr>]"
  let ?three = "(demo_ext bug_json)\<lparr>get_transitions := (\<lambda>_. Inr ?trs3)\<rparr>"
  have a: "get_issue ?todo (issue_key demo_issue) = Inr ?cur \<and> issue_status ?cur = ''To Do''"
    by (simp add: demo_issue_def)
  have b: "get_issue (demo_ext bug_json) (issue_key demo_issue) = Inr ?stale \<and>
           issue_status ?stale \<noteq> ''Done'' \<and>
           get_transitions (demo_ext bug_json) ?stale = Inr ?trs \<and>
           (\<forall>t \<in> set ?trs. tr_to t \<noteq> ''Done'')"
    by (simp add: demo_issue_def demo_ext_def)
  have c: "get_issue ?three (issue_key demo_issue) = Inr ?stale \<and>
           issue_status ?stale \<noteq> ''Closed'' \<and>
           get_transitions ?three ?stale = Inr ?trs3 \<and>
           (\<forall>t \<in> set ?trs3. tr_to t \<noteq> ''Closed'')"
    by (simp add: demo_issue_def demo_ext_def)
  from set_issue_status_spec [of ?todo demo_issue "''To Do''" ?cur] a
  have 1: "set_issue_status ?todo demo_issue ''To Do'' =
      (Inr (), [GetIssue (issue_key demo_issue), Log (LogAlreadyInStatus (issue_key ?cur) ''To Do'')])"
    by blast
  from set_issue_status_spec [of "demo_ext bug_json" demo_issue "''Done''" ?stale ?trs] b
  have 2: "set_issue_status (demo_ext bug_json) demo_issue ''Done'' =
      (Inr (), [GetIssue (issue_key demo_issue), GetTransitions ?stale,
                Log (LogCannotTransition (issue_key ?stale) ''Done'' (issue_status ?stale)
                       (case ?trs of
                          [] \<Rightarrow> []
                        | t # rest \<Rightarrow> tr_to t @ concat (map (\<lambda>r. '', '' @ tr_to r) rest)))])"
    by blast
  from set_issue_status_spec [of ?three demo_issue "''Closed''" ?stale ?trs3] c
  have 3: "set_issue_status ?three demo_issue ''Closed'' =
      (Inr (), [GetIssue (issue_key demo_issue), GetTransitions ?stale,
                Log (LogCannotTransition (issue_key ?stale) ''Closed'' (issue_status ?stale)
                       (case ?trs3 of
                          [] \<Rightarrow> []
                        | t # rest \<Rightarrow> tr_to t @ concat (map (\<lambda>r. '', '' @ tr_to r) rest)))])"
    by blast
  from 1 2 3 show ?thesis
    by (simp add: demo_issue_def)
qed

subsection \<open>C8: the excerpt of the notification\<close>

text \<open>
  C8. The excerpt is the first 200 characters of the message followed by three dots when
  the message is longer than 200 characters, and the message itself otherwise: 200
  characters and the dots for a message of 250, the whole message for one of 150. The
  broadcast post, the first call of \<^verbatim>\<open>_send_notification\<close>, carries the excerpt between
  two fences at the end of its text.
\<close>

theorem excerpt_truncation:
  "excerpt m = (if 200 < length m then take 200 m @ ''...'' else m)
   \<and> (length m = 250 \<longrightarrow>
        length (excerpt m) = 203 \<and> take 200 (excerpt m) = take 200 m \<and>
        drop 200 (excerpt m) = ''...'')
   \<and> (length m = 150 \<longrightarrow> excerpt m = m)
   \<and> hd (snd (send_notification x cfg k url m ch u ts)) =
       PostMessage
         \<lparr>post_channel = slack_notification_channel cfg,
          post_text =
            '':white_check_mark: *Jira Ticket Created*'' @ nl @ nl @
            ''*Ticket:* <'' @ url @ ''|'' @ k @ ''>'' @ nl @
            ''*From:* <#'' @ ch @ ''> by <@'' @ str_opt u @ ''>'' @ nl @
            ''*Original Message:*'' @ nl @
            fence @ excerpt m @ fence,
          post_thread_ts = None, post_unfurl_links = Some False\<rparr>"
proof -
  have e: "excerpt m = (if 200 < length m then take 200 m @ ''...'' else m)"
    by (simp add: excerpt_def)
  have p: "hd (snd (send_notification x cfg k url m ch u ts)) =
       PostMessage (broadcast_post cfg (notification_text url k ch u m))"
    by (simp add: send_notification_def run_simps Let_def split: sum.splits)
  show ?thesis
    using p by (simp add: e notification_text_def broadcast_post_def)
qed

theorem excerpt_truncation_witness:
  "length (replicate 250 CHR ''a'') = 250
   \<and> excerpt (replicate 250 CHR ''a'') = replicate 200 CHR ''a'' @ ''...''
   \<and> length (excerpt (replicate 250 CHR ''a'')) = 203
   \<and> length (replicate 150 CHR ''b'') = 150
   \<and> excerpt (replicate 150 CHR ''b'') = replicate 150 CHR ''b''"
  using excerpt_truncation [of "replicate 250 CHR ''a''"]
        excerpt_truncation [of "replicate 150 CHR ''b''"]
  by simp

subsection \<open>C9: building the draft\<close>

lemma render_description_clock:
  "render_description n e ch m d t = render_description n e ch m d t' \<longleftrightarrow> t = t'"
  by (simp add: render_description_def)

text \<open>
  C9, as stated, fails: the description ends with the time of creation, read from the
  clock while the draft is built. Two invocations on the same verdict, reporter, channel
  and text that read the clock one second apart give different drafts.
\<close>

theorem pure_build_counterexample:
  "build_issue_dict (demo_ext bug_json) demo_cfg (ticket_info_of demo_cfg bug_verdict)
     ''Ada'' ''ada@example.com'' ''bugs'' ''export is broken''
   \<noteq> build_issue_dict ((demo_ext bug_json)\<lparr>now_text := ''2026-01-01 12:00:01''\<rparr>) demo_cfg
       (ticket_info_of demo_cfg bug_verdict) ''Ada'' ''ada@example.com'' ''bugs'' ''export is broken''"
  by (simp add: build_issue_dict_fields issue_dict_of_def render_description_clock demo_ext_def)

text \<open>
  C9, amended. The draft is a function of the verdict, the reporter's name and email, the
  channel, the original text and the reading of the clock: two invocations that read the
  same time give the same draft. Building calls no service and writes no log; its only
  effect is at most one reading of the clock.
\<close>

theorem build_depends_on_clock_only:
  "(now_text x = now_text x' \<and> str_other x = str_other x' \<longrightarrow>
      build_issue_dict x cfg ticket_info n e ch m = build_issue_dict x' cfg ticket_info n e ch m)
   \<and> (snd (build_issue_dict x cfg ticket_info n e ch m) = [] \<or>
      snd (build_issue_dict x cfg ticket_info n e ch m) = [ClockRead])"
  by (simp add: build_issue_dict_def dict_index_def prog_simps split: option.splits)

text \<open>Two deployments with different trackers and different model answers, and the same clock.\<close>

theorem build_depends_on_clock_only_witness:
  "now_text (demo_ext bug_json) = now_text (no_priority_ext quiet_json)
   \<and> str_other (demo_ext bug_json) = str_other (no_priority_ext quiet_json)
   \<and> build_issue_dict (demo_ext bug_json) demo_cfg (ticket_info_of demo_cfg bug_verdict)
       ''Ada'' ''ada@example.com'' ''bugs'' ''export is broken''
     = build_issue_dict (no_priority_ext quiet_json) demo_cfg (ticket_info_of demo_cfg bug_verdict)
       ''Ada'' ''ada@example.com'' ''bugs'' ''export is broken''"
proof -
  have a: "now_text (demo_ext bug_json) = now_text (no_priority_ext quiet_json) \<and>
           str_other (demo_ext bug_json) = str_other (no_priority_ext quiet_json)"
    by (simp add: no_priority_ext_def demo_ext_def)
  from build_depends_on_clock_only [of "demo_ext bug_json" "no_priority_ext quiet_json"] a
  show ?thesis by blast
qed


subsection \<open>C10: one handler for both posts\<close>

text \<open>
  C10. When the post to the notification channel raises, \<^verbatim>\<open>_send_notification\<close> logs the
  error and returns: the broadcast post is the only post attempted, the threaded reply
  is not.
\<close>

theorem broadcast_failure_skips_reply:
  assumes "chat_postMessage x (broadcast_post cfg (notification_text url k ch u m)) = Inl e"
  shows "send_notification x cfg k url m ch u ts =
           (Inr (), [PostMessage (broadcast_post cfg (notification_text url k ch u m)),
                     Log (LogNotificationError e)])
         \<and> filter posts_message (snd (send_notification x cfg k url m ch u ts)) =
             [PostMessage (broadcast_post cfg (notification_text url k ch u m))]"
  using assms by (simp add: send_notification_def prog_simps)

text \<open>The reply alone would have gone through.\<close>

theorem broadcast_failure_skips_reply_witness:
  "chat_postMessage muted_ext
     (broadcast_post demo_cfg
        (notification_text ''https://example.atlassian.net/browse/PROJ-1'' ''PROJ-1'' ''bugs''
           (Some ''U1'') ''export is broken'')) = Inl (ServiceError ''channel_not_found'')
   \<and> chat_postMessage muted_ext
       (thread_post ''bugs'' (Some ''1700000000.000100'')
          ''https://example.atlassian.net/browse/PROJ-1'' ''PROJ-1'') = Inr ()
   \<and> send_notification muted_ext demo_cfg ''PROJ-1'' ''https://example.atlassian.net/browse/PROJ-1''
       ''export is broken'' ''bugs'' (Some ''U1'') (Some ''1700000000.000100'') =
       (Inr (),
        [PostMessage
           (broadcast_post demo_cfg
              (notification_text ''https://example.atlassian.net/browse/PROJ-1'' ''PROJ-1'' ''bugs''
                 (Some ''U1'') ''export is broken'')),
         Log (LogNotificationError (ServiceError ''channel_not_found''))])"
proof -
  have a: "chat_postMessage muted_ext
     (broadcast_post demo_cfg
        (notification_text ''https://example.atlassian.net/browse/PROJ-1'' ''PROJ-1'' ''bugs''
           (Some ''U1'') ''export is broken'')) = Inl (ServiceError ''channel_not_found'')"
    by (simp add: muted_ext_def broadcast_post_def demo_cfg_def)
  have b: "chat_postMessage muted_ext
       (thread_post ''bugs'' (Some ''1700000000.000100'')
          ''https://example.atlassian.net/browse/PROJ-1'' ''PROJ-1'') = Inr ()"
    by (simp add: muted_ext_def thread_post_def)
  from broadcast_failure_skips_reply [OF a, of "Some ''1700000000.000100''"] a b
  show ?thesis by simp
qed


end
